theory Spec2Isabelle
  imports Complex_Main
begin

section \<open>HTTP errors (src/lib/errors/http-errors.ts)\<close>

text \<open>
  The handlers throw instances of the \<^verbatim>\<open>HttpError\<close> subclasses. A thrown error is the
  \<open>Inl\<close> branch of a handler's result; the constructor argument is the message.
\<close>

datatype HttpError =
    BadRequestError string
  | NotFoundError string
  | ConflictError string


section \<open>Session state machine (src/services/test-session-state.service.ts)\<close>

datatype SessionStatus =
    ordered
  | active
  | retrieval_due
  | mailed
  | results_pending
  | complete
  | expired
  | cancelled

text \<open>The string value of each member of the \<^verbatim>\<open>SessionStatus\<close> union type.\<close>

fun statusString :: "SessionStatus \<Rightarrow> string" where
  "statusString ordered = ''ordered''"
| "statusString active = ''active''"
| "statusString retrieval_due = ''retrieval_due''"
| "statusString mailed = ''mailed''"
| "statusString results_pending = ''results_pending''"
| "statusString complete = ''complete''"
| "statusString expired = ''expired''"
| "statusString cancelled = ''cancelled''"

fun STATE_TRANSITIONS :: "SessionStatus \<Rightarrow> SessionStatus list" where
  "STATE_TRANSITIONS ordered = [active, cancelled]"
| "STATE_TRANSITIONS active = [retrieval_due, cancelled]"
| "STATE_TRANSITIONS retrieval_due = [mailed, expired, cancelled]"
| "STATE_TRANSITIONS mailed = [results_pending, cancelled]"
| "STATE_TRANSITIONS results_pending = [complete, cancelled]"
| "STATE_TRANSITIONS complete = []"
| "STATE_TRANSITIONS expired = []"
| "STATE_TRANSITIONS cancelled = []"

text \<open>\<^verbatim>\<open>Array.prototype.join\<close> on an array of strings.\<close>

fun join :: "string \<Rightarrow> string list \<Rightarrow> string" where
  "join sep [] = []"
| "join sep [x] = x"
| "join sep (x # y # ys) = x @ sep @ join sep (y # ys)"

definition quoted :: "string \<Rightarrow> string" where
  "quoted s = CHR 0x27 # s @ [CHR 0x27]"

text \<open>
  The message of the error thrown for an illegal transition:
  \<^verbatim>\<open>Cannot transition from '<current>' to '<new>'. Allowed transitions: [<a>, <b>]\<close>.
\<close>

definition transitionMessage :: "SessionStatus \<Rightarrow> SessionStatus \<Rightarrow> string" where
  "transitionMessage currentStatus newStatus =
     ''Cannot transition from '' @ quoted (statusString currentStatus) @ '' to ''
       @ quoted (statusString newStatus) @ ''. Allowed transitions: [''
       @ join '', '' (map statusString (STATE_TRANSITIONS currentStatus)) @ '']''"

definition validateStatusTransition :: "SessionStatus \<Rightarrow> SessionStatus \<Rightarrow> HttpError + unit" where
  "validateStatusTransition currentStatus newStatus =
     (if currentStatus = newStatus then Inr ()
      else if newStatus \<notin> set (STATE_TRANSITIONS currentStatus)
        then Inl (ConflictError (transitionMessage currentStatus newStatus))
      else Inr ())"

definition getNextAllowedStatuses :: "SessionStatus \<Rightarrow> SessionStatus list" where
  "getNextAllowedStatuses currentStatus = STATE_TRANSITIONS currentStatus"

section \<open>Dates\<close>

text \<open>
  A JavaScript \<^verbatim>\<open>Date\<close> holds a time value: the number of milliseconds since the epoch
  in UTC, at most \<open>8.64e15\<close> in absolute value, or \<^verbatim>\<open>NaN\<close> for an invalid date. The dates
  that the code reads (the clock, a date of a request or of a row) are valid, and \<open>Date\<close>
  is the type of their time values; what a setter leaves in a \<^verbatim>\<open>Date\<close> is a \<open>DateObject\<close>,
  which may be invalid. The calendar functions follow the definitions of ECMA-262
  (section "Overview of Date Objects and Definitions of Abstract Operations"); they are
  applied to local time values.
\<close>

type_synonym Date = int

datatype DateObject = ValidDate Date | InvalidDate

definition msPerDay :: int where
  "msPerDay = 86400000"

definition Day :: "Date \<Rightarrow> int" where
  "Day t = t div msPerDay"

definition TimeWithinDay :: "Date \<Rightarrow> int" where
  "TimeWithinDay t = t mod msPerDay"

definition DaysInYear :: "int \<Rightarrow> int" where
  "DaysInYear y =
     (if y mod 4 \<noteq> 0 then 365
      else if y mod 100 \<noteq> 0 then 366
      else if y mod 400 \<noteq> 0 then 365
      else 366)"

definition DayFromYear :: "int \<Rightarrow> int" where
  "DayFromYear y =
     365 * (y - 1970) + (y - 1969) div 4 - (y - 1901) div 100 + (y - 1601) div 400"

text \<open>
  \<^verbatim>\<open>YearFromTime(t)\<close> is the largest year \<open>y\<close> whose first day is not after \<open>t\<close>.
  It is computed by a search from an estimate: first down to a year that starts on
  or before the day, then up while the next year also does.
\<close>

function yearDown :: "int \<Rightarrow> int \<Rightarrow> int" where
  "yearDown d y = (if d < DayFromYear y then yearDown d (y - 1) else y)"
  by pat_completeness auto
termination
proof (relation "measure (\<lambda>(d, y). nat (DayFromYear y - d))")
  show "wf (measure (\<lambda>(d, y). nat (DayFromYear y - d)))" by simp
next
  fix d y :: int
  assume "d < DayFromYear y"
  moreover have "DayFromYear (y - 1) < DayFromYear y"
  proof -
    have a: "(y - 1 - 1969) div 4 \<le> (y - 1969) div 4"
      by (rule zdiv_mono1) auto
    have "(y - 1901) div 100 \<le> (y - 1 - 1901 + 100) div 100"
      by (rule zdiv_mono1) auto
    then have b: "(y - 1901) div 100 \<le> (y - 1 - 1901) div 100 + 1"
      by simp
    have c: "(y - 1 - 1601) div 400 \<le> (y - 1601) div 400"
      by (rule zdiv_mono1) auto
    show ?thesis
      unfolding DayFromYear_def using a b c by simp
  qed
  ultimately show "((d, y - 1), (d, y)) \<in> measure (\<lambda>(d, y). nat (DayFromYear y - d))"
    by simp
qed

function yearUp :: "int \<Rightarrow> int \<Rightarrow> int" where
  "yearUp d y = (if DayFromYear (y + 1) \<le> d then yearUp d (y + 1) else y)"
  by pat_completeness auto
termination
proof (relation "measure (\<lambda>(d, y). nat (d + 1 - DayFromYear (y + 1)))")
  show "wf (measure (\<lambda>(d, y). nat (d + 1 - DayFromYear (y + 1))))" by simp
next
  fix d y :: int
  assume "DayFromYear (y + 1) \<le> d"
  moreover have "DayFromYear (y + 1) < DayFromYear (y + 1 + 1)"
  proof -
    have a: "(y + 1 - 1969) div 4 \<le> (y + 1 + 1 - 1969) div 4"
      by (rule zdiv_mono1) auto
    have "(y + 1 + 1 - 1901) div 100 \<le> (y + 1 - 1901 + 100) div 100"
      by (rule zdiv_mono1) auto
    then have b: "(y + 1 + 1 - 1901) div 100 \<le> (y + 1 - 1901) div 100 + 1"
      by simp
    have c: "(y + 1 - 1601) div 400 \<le> (y + 1 + 1 - 1601) div 400"
      by (rule zdiv_mono1) auto
    show ?thesis
      unfolding DayFromYear_def using a b c by simp
  qed
  ultimately show "((d, y + 1), (d, y)) \<in> measure (\<lambda>(d, y). nat (d + 1 - DayFromYear (y + 1)))"
    by simp
qed

definition YearFromDay :: "int \<Rightarrow> int" where
  "YearFromDay d = yearUp d (yearDown d (1970 + d div 366))"

definition YearFromTime :: "Date \<Rightarrow> int" where
  "YearFromTime t = YearFromDay (Day t)"

definition leapDays :: "int \<Rightarrow> int" where
  "leapDays y = (if DaysInYear y = 365 then 0 else 1)"

definition InLeapYear :: "Date \<Rightarrow> int" where
  "InLeapYear t = leapDays (YearFromTime t)"

definition DayWithinYear :: "Date \<Rightarrow> int" where
  "DayWithinYear t = Day t - DayFromYear (YearFromTime t)"

definition MonthFromTime :: "Date \<Rightarrow> int" where
  "MonthFromTime t =
     (let d = DayWithinYear t; L = InLeapYear t in
      if d < 31 then 0
      else if d < 59 + L then 1
      else if d < 90 + L then 2
      else if d < 120 + L then 3
      else if d < 151 + L then 4
      else if d < 181 + L then 5
      else if d < 212 + L then 6
      else if d < 243 + L then 7
      else if d < 273 + L then 8
      else if d < 304 + L then 9
      else if d < 334 + L then 10
      else 11)"

definition DateFromTime :: "Date \<Rightarrow> int" where
  "DateFromTime t =
     (let d = DayWithinYear t; L = InLeapYear t; m = MonthFromTime t in
      if m = 0 then d + 1
      else if m = 1 then d - 30
      else if m = 2 then d - 58 - L
      else if m = 3 then d - 89 - L
      else if m = 4 then d - 119 - L
      else if m = 5 then d - 150 - L
      else if m = 6 then d - 180 - L
      else if m = 7 then d - 211 - L
      else if m = 8 then d - 242 - L
      else if m = 9 then d - 272 - L
      else if m = 10 then d - 303 - L
      else d - 333 - L)"

text \<open>The number of days of a year that precede its month \<open>m\<close> (0 is January).\<close>

definition daysBeforeMonth :: "int \<Rightarrow> int \<Rightarrow> int" where
  "daysBeforeMonth m L =
     (if m = 0 then 0
      else if m = 1 then 31
      else if m = 2 then 59 + L
      else if m = 3 then 90 + L
      else if m = 4 then 120 + L
      else if m = 5 then 151 + L
      else if m = 6 then 181 + L
      else if m = 7 then 212 + L
      else if m = 8 then 243 + L
      else if m = 9 then 273 + L
      else if m = 10 then 304 + L
      else 334 + L)"

text \<open>
  \<^verbatim>\<open>MakeDay(year, month, date)\<close>: the day number of the first of the month
  (the month normalised into its year), plus \<open>date - 1\<close>.
\<close>

definition MakeDay :: "int \<Rightarrow> int \<Rightarrow> int \<Rightarrow> int" where
  "MakeDay year month date =
     (let ym = year + month div 12; mn = month mod 12 in
      DayFromYear ym + daysBeforeMonth mn (leapDays ym) + date - 1)"

definition MakeDate :: "int \<Rightarrow> int \<Rightarrow> Date" where
  "MakeDate day time = day * msPerDay + time"

text \<open>
  The getters and setters that the code calls work in the time zone of the process,
  which the sources do not fix: it is the parameter \<open>tz\<close> of every function that reads or
  writes local fields. A zone gives the offset of local time from UTC, in milliseconds:
  \<open>offsetAt\<close> at a time value, and \<open>offsetOfLocal\<close> the one that the engine takes for a
  local time value (at a local time that the zone repeats or skips, the offset in force
  before the transition). \<^verbatim>\<open>LocalTime(t)\<close> and \<^verbatim>\<open>UTC(t)\<close> add and subtract them, and
  \<^verbatim>\<open>TimeClip\<close> makes a time value beyond \<open>8.64e15\<close> invalid.
\<close>

record TimeZone =
  offsetAt :: "int \<Rightarrow> int"
  offsetOfLocal :: "int \<Rightarrow> int"

definition LocalTime :: "TimeZone \<Rightarrow> Date \<Rightarrow> int" where
  "LocalTime tz t = t + offsetAt tz t"

definition UTC :: "TimeZone \<Rightarrow> int \<Rightarrow> int" where
  "UTC tz t = t - offsetOfLocal tz t"

definition TimeClip :: "int \<Rightarrow> DateObject" where
  "TimeClip time = (if \<bar>time\<bar> > 8640000000000000 then InvalidDate else ValidDate time)"

definition getFullYear :: "TimeZone \<Rightarrow> Date \<Rightarrow> int" where
  "getFullYear tz tv = YearFromTime (LocalTime tz tv)"

definition getMonth :: "TimeZone \<Rightarrow> Date \<Rightarrow> int" where
  "getMonth tz tv = MonthFromTime (LocalTime tz tv)"

definition getDate :: "TimeZone \<Rightarrow> Date \<Rightarrow> int" where
  "getDate tz tv = DateFromTime (LocalTime tz tv)"

definition setDate :: "TimeZone \<Rightarrow> Date \<Rightarrow> int \<Rightarrow> DateObject" where
  "setDate tz tv dt =
     (let t = LocalTime tz tv;
          newDate = MakeDate (MakeDay (YearFromTime t) (MonthFromTime t) dt) (TimeWithinDay t)
      in TimeClip (UTC tz newDate))"

definition setFullYear :: "TimeZone \<Rightarrow> Date \<Rightarrow> int \<Rightarrow> DateObject" where
  "setFullYear tz tv y =
     (let t = LocalTime tz tv;
          newDate = MakeDate (MakeDay y (MonthFromTime t) (DateFromTime t)) (TimeWithinDay t)
      in TimeClip (UTC tz newDate))"

section \<open>Timeline calculator (src/services/test-session-timeline.service.ts)\<close>

datatype KitType = long_term | real_estate_short

definition LONG_TERM_DURATION_DAYS :: int where
  "LONG_TERM_DURATION_DAYS = 91"

definition LONG_TERM_RETRIEVAL_DUE_DAYS :: int where
  "LONG_TERM_RETRIEVAL_DUE_DAYS = 80"

definition SHORT_TERM_DURATION_DAYS :: int where
  "SHORT_TERM_DURATION_DAYS = 4"

definition SHORT_TERM_RETRIEVAL_DUE_DAYS :: int where
  "SHORT_TERM_RETRIEVAL_DUE_DAYS = 2"

definition calculateExpectedCompletionDate ::
  "TimeZone \<Rightarrow> KitType \<Rightarrow> Date \<Rightarrow> DateObject" where
  "calculateExpectedCompletionDate tz kitType activatedAt =
     (let durationDays =
            (if kitType = long_term then LONG_TERM_DURATION_DAYS else SHORT_TERM_DURATION_DAYS);
          completionDate = activatedAt
      in setDate tz completionDate (getDate tz completionDate + durationDays))"

definition calculateRetrievalDueAt ::
  "TimeZone \<Rightarrow> KitType \<Rightarrow> Date \<Rightarrow> DateObject" where
  "calculateRetrievalDueAt tz kitType activatedAt =
     (let retrievalDueDays =
            (if kitType = long_term then LONG_TERM_RETRIEVAL_DUE_DAYS
             else SHORT_TERM_RETRIEVAL_DUE_DAYS);
          retrievalDueDate = activatedAt
      in setDate tz retrievalDueDate (getDate tz retrievalDueDate + retrievalDueDays))"

section \<open>Persistence\<close>

text \<open>
  A table of the database is the list of its rows, each with its primary key.
  \<^verbatim>\<open>findUnique({ where: { id } })\<close> is the lookup of the key, \<^verbatim>\<open>update\<close> rewrites the
  row of a key, \<^verbatim>\<open>create\<close> adds a row and \<^verbatim>\<open>delete\<close> removes the row of a key.
  A row holds the values it is given; for a date that the code computes with a setter
  this is the \<open>DateObject\<close> that the setter left.
\<close>

type_synonym 'a table = "(string \<times> 'a) list"

definition findUnique :: "'a table \<Rightarrow> string \<Rightarrow> 'a option" where
  "findUnique tbl k = map_of tbl k"

definition updateRow :: "'a table \<Rightarrow> string \<Rightarrow> ('a \<Rightarrow> 'a) \<Rightarrow> 'a table" where
  "updateRow tbl k f = map (\<lambda>(k', v). if k' = k then (k', f v) else (k', v)) tbl"

definition createRow :: "'a table \<Rightarrow> string \<Rightarrow> 'a \<Rightarrow> 'a table" where
  "createRow tbl k v = tbl @ [(k, v)]"


record TestSession =
  homeId :: string
  kitSerialNumber :: string
  kitType :: KitType
  status :: SessionStatus
  activatedAt :: "Date option"
  expectedCompletionDate :: "DateObject option"
  retrievalDueAt :: "DateObject option"
  retrievedAt :: "Date option"
  mailedAt :: "Date option"

section \<open>Risk classifier (src/services/radon-risk.service.ts)\<close>

datatype RiskZone = below_guideline | caution | action_required | urgent_action

definition THRESHOLD_GUIDELINE :: real where
  "THRESHOLD_GUIDELINE = 200"

definition THRESHOLD_CAUTION :: real where
  "THRESHOLD_CAUTION = 600"

definition THRESHOLD_ACTION :: real where
  "THRESHOLD_ACTION = 800"

definition MIN_RADON_VALUE :: real where
  "MIN_RADON_VALUE = 0"

definition MAX_RADON_VALUE :: real where
  "MAX_RADON_VALUE = 10000"

text \<open>
  A concentration is a JavaScript number; the model takes the finite ones, as reals
  (the comparisons with the thresholds are exact on them).
\<close>

definition calculateRiskZone :: "real \<Rightarrow> RiskZone" where
  "calculateRiskZone valueBqm3 =
     (if valueBqm3 < THRESHOLD_GUIDELINE then below_guideline
      else if valueBqm3 < THRESHOLD_CAUTION then caution
      else if valueBqm3 < THRESHOLD_ACTION then action_required
      else urgent_action)"

definition isValidRadonMeasurement :: "real \<Rightarrow> bool" where
  "isValidRadonMeasurement valueBqm3 \<longleftrightarrow>
     valueBqm3 \<ge> MIN_RADON_VALUE \<and> valueBqm3 \<le> MAX_RADON_VALUE"

section \<open>Results and certificates: the stored records\<close>

datatype CertType = residential | real_estate

datatype CertStatus = valid | cert_expired | superseded

record Result =
  testSessionId :: string
  valueBqm3 :: real
  zone :: RiskZone
  labReference :: "string option"
  enteredByUserId :: string
  isImmutable :: bool
  recordedAt :: Date

text \<open>
  The fields \<^verbatim>\<open>homeId\<close> and \<^verbatim>\<open>status\<close> of a certificate are named \<open>certHomeId\<close> and
  \<open>certStatus\<close> here, and the status \<^verbatim>\<open>expired\<close> is \<open>cert_expired\<close>: a test session has
  fields and a status of the same names.
\<close>

record Certificate =
  resultId :: string
  certHomeId :: string
  certificateNumber :: string
  certType :: CertType
  certStatus :: CertStatus
  verificationUrl :: string
  validFrom :: Date
  validUntil :: DateObject

text \<open>The tables \<^verbatim>\<open>prisma.testSession\<close>, \<^verbatim>\<open>prisma.result\<close> and \<^verbatim>\<open>prisma.certificate\<close>.\<close>

record Prisma =
  testSession :: "TestSession table"
  result :: "Result table"
  certificate :: "Certificate table"

section \<open>Executing a transition (src/services/test-session-state.service.ts)\<close>

text \<open>
  \<open>tz\<close> is the time zone of the process and \<open>now\<close> the value of \<^verbatim>\<open>new Date()\<close> in the call.
  The function returns what the call returns or throws, and the database after it.
\<close>

definition executeTransition ::
  "TimeZone \<Rightarrow> Date \<Rightarrow> string \<Rightarrow> SessionStatus \<Rightarrow> Prisma
     \<Rightarrow> (HttpError + unit) \<times> Prisma" where
  "executeTransition tz now sessionId newStatus prisma =
     (case findUnique (testSession prisma) sessionId of
        None \<Rightarrow> (Inl (ConflictError ''Test session not found''), prisma)
      | Some session \<Rightarrow>
          (case validateStatusTransition (status session) newStatus of
             Inl e \<Rightarrow> (Inl e, prisma)
           | Inr u \<Rightarrow>
               (let updateData =
                      (if status session = ordered \<and> newStatus = active
                       then (\<lambda>row. row\<lparr>status := newStatus,
                                activatedAt := Some now,
                                expectedCompletionDate :=
                                  Some (calculateExpectedCompletionDate tz (kitType session) now),
                                retrievalDueAt :=
                                  Some (calculateRetrievalDueAt tz (kitType session) now)\<rparr>)
                       else (\<lambda>row. row\<lparr>status := newStatus\<rparr>))
                in (Inr (),
                    prisma\<lparr>testSession := updateRow (testSession prisma) sessionId updateData\<rparr>))))"

section \<open>Test session routes (src/routes/test-sessions.routes.ts)\<close>

text \<open>
  The handlers of the routes, after authentication and the ownership check. In a
  request body an absent (\<^verbatim>\<open>undefined\<close>) field is \<open>None\<close>; for a nullable date,
  \<open>Some None\<close> is \<^verbatim>\<open>null\<close>.
\<close>

record UpdateTestSessionInput =
  bodyStatus :: "SessionStatus option"
  bodyRetrievedAt :: "Date option option"
  bodyMailedAt :: "Date option option"

text \<open>\<^verbatim>\<open>PUT /test-sessions/:id\<close>\<close>

definition putTestSession ::
  "TimeZone \<Rightarrow> Date \<Rightarrow> string \<Rightarrow> UpdateTestSessionInput \<Rightarrow> Prisma
     \<Rightarrow> (HttpError + TestSession option) \<times> Prisma" where
  "putTestSession tz now sessionId body prisma =
     (case findUnique (testSession prisma) sessionId of
        None \<Rightarrow> (Inl (NotFoundError ''Test session not found''), prisma)
      | Some session \<Rightarrow>
          (let transition =
                 (case bodyStatus body of
                    None \<Rightarrow> (Inr (), prisma)
                  | Some st \<Rightarrow>
                      (case validateStatusTransition (status session) st of
                         Inl e \<Rightarrow> (Inl e, prisma)
                       | Inr u \<Rightarrow> executeTransition tz now sessionId st prisma))
           in case fst transition of
                Inl e \<Rightarrow> (Inl e, snd transition)
              | Inr u \<Rightarrow>
                  (let prisma1 = snd transition;
                       updateData =
                         (\<lambda>row. (case bodyMailedAt body of
                                    None \<Rightarrow> (\<lambda>r. r)
                                  | Some m \<Rightarrow> (\<lambda>r. r\<lparr>mailedAt := m\<rparr>))
                                 ((case bodyRetrievedAt body of
                                    None \<Rightarrow> (\<lambda>r. r)
                                  | Some d \<Rightarrow> (\<lambda>r. r\<lparr>retrievedAt := d\<rparr>)) row));
                       prisma2 =
                         (if bodyRetrievedAt body \<noteq> None \<or> bodyMailedAt body \<noteq> None
                          then prisma1\<lparr>testSession :=
                                 updateRow (testSession prisma1) sessionId updateData\<rparr>
                          else prisma1)
                   in (Inr (findUnique (testSession prisma2) sessionId), prisma2))))"

text \<open>\<^verbatim>\<open>PATCH /test-sessions/:id/retrieve\<close>; the body's \<^verbatim>\<open>retrievedAt\<close> is optional.\<close>

definition retrieveTestSession ::
  "Date \<Rightarrow> string \<Rightarrow> Date option \<Rightarrow> Prisma \<Rightarrow> (HttpError + TestSession option) \<times> Prisma" where
  "retrieveTestSession now sessionId bodyRetrieved prisma =
     (case findUnique (testSession prisma) sessionId of
        None \<Rightarrow> (Inl (NotFoundError ''Test session not found''), prisma)
      | Some session \<Rightarrow>
          (let retrieved = (case bodyRetrieved of Some d \<Rightarrow> d | None \<Rightarrow> now);
               prisma1 = prisma\<lparr>testSession :=
                 updateRow (testSession prisma) sessionId
                   (\<lambda>row. row\<lparr>retrievedAt := Some retrieved\<rparr>)\<rparr>
           in (Inr (findUnique (testSession prisma1) sessionId), prisma1)))"

text \<open>\<^verbatim>\<open>PATCH /test-sessions/:id/mail\<close>; the body's \<^verbatim>\<open>mailedAt\<close> is optional.\<close>

definition mailMessage :: "SessionStatus \<Rightarrow> string" where
  "mailMessage st =
     ''Cannot mail kit in '' @ quoted (statusString st) @ '' status. Kit must be in ''
       @ quoted ''active'' @ '' or '' @ quoted ''retrieval_due'' @ '' status.''"

definition mailTestSession ::
  "Date \<Rightarrow> string \<Rightarrow> Date option \<Rightarrow> Prisma \<Rightarrow> (HttpError + TestSession option) \<times> Prisma" where
  "mailTestSession now sessionId bodyMailed prisma =
     (case findUnique (testSession prisma) sessionId of
        None \<Rightarrow> (Inl (NotFoundError ''Test session not found''), prisma)
      | Some session \<Rightarrow>
          (let allowedStatuses = [active, retrieval_due] in
           if status session \<notin> set allowedStatuses
           then (Inl (ConflictError (mailMessage (status session))), prisma)
           else
             (let mailed_at = (case bodyMailed of Some d \<Rightarrow> d | None \<Rightarrow> now);
                  prisma1 = prisma\<lparr>testSession :=
                    updateRow (testSession prisma) sessionId
                      (\<lambda>row. row\<lparr>status := mailed, mailedAt := Some mailed_at\<rparr>)\<rparr>
              in (Inr (findUnique (testSession prisma1) sessionId), prisma1))))"

text \<open>\<^verbatim>\<open>PATCH /test-sessions/:id/cancel\<close>\<close>

definition cancelTestSession ::
  "TimeZone \<Rightarrow> Date \<Rightarrow> string \<Rightarrow> Prisma
     \<Rightarrow> (HttpError + TestSession option) \<times> Prisma" where
  "cancelTestSession tz now sessionId prisma =
     (case findUnique (testSession prisma) sessionId of
        None \<Rightarrow> (Inl (NotFoundError ''Test session not found''), prisma)
      | Some session \<Rightarrow>
          (case validateStatusTransition (status session) cancelled of
             Inl e \<Rightarrow> (Inl e, prisma)
           | Inr u \<Rightarrow>
               (case executeTransition tz now sessionId cancelled prisma of
                  (Inl e, prisma1) \<Rightarrow> (Inl e, prisma1)
                | (Inr v, prisma1) \<Rightarrow>
                    (Inr (findUnique (testSession prisma1) sessionId), prisma1))))"

text \<open>The operations that write the status of a session, and the database after one.\<close>

datatype Operation =
    ExecuteTransition string SessionStatus
  | PutTestSession string UpdateTestSessionInput
  | RetrieveTestSession string "Date option"
  | MailTestSession string "Date option"
  | CancelTestSession string

fun databaseAfter :: "TimeZone \<Rightarrow> Date \<Rightarrow> Operation \<Rightarrow> Prisma \<Rightarrow> Prisma" where
  "databaseAfter tz now (ExecuteTransition i st) prisma =
     snd (executeTransition tz now i st prisma)"
| "databaseAfter tz now (PutTestSession i body) prisma =
     snd (putTestSession tz now i body prisma)"
| "databaseAfter tz now (RetrieveTestSession i d) prisma =
     snd (retrieveTestSession now i d prisma)"
| "databaseAfter tz now (MailTestSession i d) prisma = snd (mailTestSession now i d prisma)"
| "databaseAfter tz now (CancelTestSession i) prisma = snd (cancelTestSession tz now i prisma)"

section \<open>Result routes (src/routes/results.routes.ts)\<close>

text \<open>
  The handlers after authentication and the admin check. \<open>userId\<close> is the id of the
  caller and \<open>newId\<close> the primary key that the database gives the created row.
  A row of a table is also found by another unique column (\<^verbatim>\<open>testSessionId\<close> of a
  result, \<^verbatim>\<open>resultId\<close> of a certificate).
\<close>

definition findUniqueWhere :: "('a \<Rightarrow> bool) \<Rightarrow> 'a table \<Rightarrow> (string \<times> 'a) option" where
  "findUniqueWhere P tbl = find (\<lambda>(k, v). P v) tbl"

record CreateResultInput =
  bodyTestSessionId :: string
  bodyValueBqm3 :: real
  bodyLabReference :: "string option"
  bodyRecordedAt :: Date

text \<open>The character after \<^verbatim>\<open>Bq/m\<close> is the superscript three, code unit \<open>0xB3\<close>.\<close>

definition radonRangeMessage :: string where
  "radonRangeMessage = ''Radon value must be between 0 and 10,000 Bq/m'' @ [CHR 0xB3]"

definition sessionStatusMessage :: "SessionStatus \<Rightarrow> string" where
  "sessionStatusMessage st =
     ''Test session must be in '' @ quoted ''mailed'' @ '', '' @ quoted ''results_pending''
       @ '', or '' @ quoted ''complete'' @ '' status. Current status: '' @ statusString st"

text \<open>\<^verbatim>\<open>POST /results\<close>\<close>

definition createResult ::
  "TimeZone \<Rightarrow> Date \<Rightarrow> string \<Rightarrow> string \<Rightarrow> CreateResultInput \<Rightarrow> Prisma
     \<Rightarrow> (HttpError + Result) \<times> Prisma" where
  "createResult tz now userId newId body prisma =
     (if \<not> isValidRadonMeasurement (bodyValueBqm3 body)
      then (Inl (BadRequestError radonRangeMessage), prisma)
      else
        (case findUnique (testSession prisma) (bodyTestSessionId body) of
           None \<Rightarrow> (Inl (NotFoundError ''Test session not found''), prisma)
         | Some session \<Rightarrow>
             (let allowedStatuses = [mailed, results_pending, complete] in
              if status session \<notin> set allowedStatuses
              then (Inl (BadRequestError (sessionStatusMessage (status session))), prisma)
              else
                (case findUniqueWhere (\<lambda>r. testSessionId r = bodyTestSessionId body)
                        (result prisma) of
                   Some existingResult \<Rightarrow>
                     (Inl (ConflictError ''A result already exists for this test session''),
                      prisma)
                 | None \<Rightarrow>
                     (let z = calculateRiskZone (bodyValueBqm3 body);
                          created = \<lparr>testSessionId = bodyTestSessionId body,
                                     valueBqm3 = bodyValueBqm3 body,
                                     zone = z,
                                     labReference = bodyLabReference body,
                                     enteredByUserId = userId,
                                     isImmutable = False,
                                     recordedAt = bodyRecordedAt body\<rparr>;
                          prisma1 = prisma\<lparr>result := createRow (result prisma) newId created\<rparr>
                      in if status session \<noteq> complete
                         then (case executeTransition tz now (bodyTestSessionId body) complete
                                      prisma1 of
                                 (Inl e, prisma2) \<Rightarrow> (Inl e, prisma2)
                               | (Inr u, prisma2) \<Rightarrow> (Inr created, prisma2))
                         else (Inr created, prisma1))))))"




section \<open>Strings\<close>

text \<open>
  A string is the list of its code units; the model covers code units below 256.
  \<open>numberToString\<close> is \<^verbatim>\<open>String(n)\<close> (and a number in a template literal) for an
  integer, \<open>padStart\<close> is \<^verbatim>\<open>String.prototype.padStart\<close> with a one-character filler,
  \<open>startsWith\<close> the prefix test, \<open>splitOn\<close> is \<^verbatim>\<open>split\<close> with a one-character separator,
  and \<open>parseInt\<close> is \<^verbatim>\<open>parseInt(s, 10)\<close>, with \<open>None\<close> for \<^verbatim>\<open>NaN\<close>.
\<close>

definition digitChar :: "nat \<Rightarrow> char" where
  "digitChar n = ''0123456789'' ! n"

fun digitsOfNat :: "nat \<Rightarrow> string" where
  "digitsOfNat n =
     (if n < 10 then [digitChar n] else digitsOfNat (n div 10) @ [digitChar (n mod 10)])"

declare digitsOfNat.simps [simp del]

definition numberToString :: "int \<Rightarrow> string" where
  "numberToString i =
     (if i < 0 then CHR ''-'' # digitsOfNat (nat (- i)) else digitsOfNat (nat i))"

definition padStart :: "nat \<Rightarrow> char \<Rightarrow> string \<Rightarrow> string" where
  "padStart n c s = replicate (n - length s) c @ s"

definition startsWith :: "string \<Rightarrow> string \<Rightarrow> bool" where
  "startsWith s p \<longleftrightarrow> take (length p) s = p"

fun splitOn :: "char \<Rightarrow> string \<Rightarrow> string list" where
  "splitOn c [] = [[]]"
| "splitOn c (x # xs) =
     (if x = c then [] # splitOn c xs
      else (case splitOn c xs of p # ps \<Rightarrow> (x # p) # ps | [] \<Rightarrow> [[x]]))"

definition isWhiteSpace :: "char \<Rightarrow> bool" where
  "isWhiteSpace c \<longleftrightarrow>
     c \<in> set [CHR 0x09, CHR 0x0A, CHR 0x0B, CHR 0x0C, CHR 0x0D, CHR 0x20, CHR 0xA0]"

definition isDigit :: "char \<Rightarrow> bool" where
  "isDigit c \<longleftrightarrow> c \<in> set ''0123456789''"

definition digitValue :: "char \<Rightarrow> int" where
  "digitValue c = int (of_char c) - 48"

definition parseInt :: "string \<Rightarrow> int option" where
  "parseInt s =
     (let s1 = dropWhile isWhiteSpace s;
          sign = (case s1 of c # r \<Rightarrow> if c = CHR ''-'' then - 1 else 1 | [] \<Rightarrow> 1);
          s2 = (case s1 of c # r \<Rightarrow> if c = CHR ''-'' \<or> c = CHR ''+'' then r else s1
                | [] \<Rightarrow> s1);
          z = takeWhile isDigit s2
      in if z = [] then None else Some (sign * foldl (\<lambda>a c. 10 * a + digitValue c) 0 z))"

text \<open>
  The order of \<^verbatim>\<open>orderBy\<close> on a string column: by code unit, a proper prefix first.
\<close>

fun stringLess :: "string \<Rightarrow> string \<Rightarrow> bool" where
  "stringLess [] [] = False"
| "stringLess [] (y # ys) = True"
| "stringLess (x # xs) [] = False"
| "stringLess (x # xs) (y # ys) =
     (if x = y then stringLess xs ys else (of_char x :: nat) < of_char y)"

text \<open>
  \<^verbatim>\<open>findFirst({ where, orderBy: { <column>: 'desc' } })\<close>: the row of the greatest
  column value among the rows that match.
\<close>

definition findFirstDesc :: "('a \<Rightarrow> bool) \<Rightarrow> ('a \<Rightarrow> string) \<Rightarrow> 'a table \<Rightarrow> 'a option" where
  "findFirstDesc P column tbl =
     (case filter P (map snd tbl) of
        [] \<Rightarrow> None
      | x # xs \<Rightarrow>
          Some (fold (\<lambda>row best. if stringLess (column best) (column row) then row else best)
                  xs x))"

section \<open>Certificate numbers (src/services/certificate-number.service.ts)\<close>

definition formatDateForCertificate :: "TimeZone \<Rightarrow> Date \<Rightarrow> string" where
  "formatDateForCertificate tz date =
     (let year = getFullYear tz date;
          month = padStart 2 CHR ''0'' (numberToString (getMonth tz date + 1));
          day = padStart 2 CHR ''0'' (numberToString (getDate tz date))
      in numberToString year @ month @ day)"

definition extractSequenceNumber :: "string \<Rightarrow> int" where
  "extractSequenceNumber number =
     (let parts = splitOn CHR ''-'' number in
      if length parts \<noteq> 3 then 0
      else (case parseInt (parts ! 2) of None \<Rightarrow> 0 | Some sequence \<Rightarrow> sequence))"

text \<open>
  \<open>tz\<close> is the time zone of the process and \<open>today\<close> the value of \<^verbatim>\<open>new Date()\<close> in the
  call.
\<close>

definition generateCertificateNumber :: "TimeZone \<Rightarrow> Date \<Rightarrow> Prisma \<Rightarrow> string" where
  "generateCertificateNumber tz today prisma =
     (let dateString = formatDateForCertificate tz today;
          prefix = ''CP-'' @ dateString @ ''-'';
          lastCertificate =
            findFirstDesc (\<lambda>c. startsWith (certificateNumber c) prefix) certificateNumber
              (certificate prisma);
          sequence =
            (case lastCertificate of
               None \<Rightarrow> 1
             | Some c \<Rightarrow> extractSequenceNumber (certificateNumber c) + 1)
      in prefix @ padStart 4 CHR ''0'' (numberToString sequence))"

section \<open>Certificate validity (src/services/certificate-verification.service.ts)\<close>

definition RESIDENTIAL_VALIDITY_YEARS :: int where
  "RESIDENTIAL_VALIDITY_YEARS = 2"

definition REAL_ESTATE_VALIDITY_DAYS :: int where
  "REAL_ESTATE_VALIDITY_DAYS = 90"

text \<open>\<open>publicUrl\<close> is the environment variable \<^verbatim>\<open>PUBLIC_URL\<close>, \<open>None\<close> when it is not set.\<close>

definition generateVerificationUrl :: "string option \<Rightarrow> string \<Rightarrow> string" where
  "generateVerificationUrl publicUrl certificateId =
     (let baseUrl = (case publicUrl of
                       Some u \<Rightarrow> if u = [] then ''https://clearpathrd.com'' else u
                     | None \<Rightarrow> ''https://clearpathrd.com'')
      in baseUrl @ ''/verify/'' @ certificateId)"

definition calculateValidUntil :: "TimeZone \<Rightarrow> CertType \<Rightarrow> Date \<Rightarrow> DateObject" where
  "calculateValidUntil tz certificateType valid_from =
     (let valid_until = valid_from in
      if certificateType = residential
      then setFullYear tz valid_until (getFullYear tz valid_until + RESIDENTIAL_VALIDITY_YEARS)
      else setDate tz valid_until (getDate tz valid_until + REAL_ESTATE_VALIDITY_DAYS))"

section \<open>Generating a certificate (POST /certificates)\<close>

text \<open>
  The file of the certificate routes (\<^verbatim>\<open>src/routes/certificates.routes.ts\<close>) is not among
  the sources, which hold the services that the handler calls: the certificate number,
  the verification URL and the validity period, above. The handler itself is taken from
  section 4.3 of the specification.
\<close>

record CreateCertificateInput =
  bodyResultId :: string
  bodyCertType :: CertType
  bodyValidFrom :: "Date option"

text \<open>
  Modelled from the spec: the certificate type that a kit type calls for, which the
  missing handler checks. "Long-duration kit types imply the residential issuance type;
  the short-stay kit type implies the real estate issuance type."
\<close>

fun expectedCertType :: "KitType \<Rightarrow> CertType" where
  "expectedCertType long_term = residential"
| "expectedCertType real_estate_short = real_estate"

text \<open>
  Modelled from the spec: the certificate that the missing handler persists. It has the
  next number of the day, \<open>validFrom\<close> from the request or else the clock, \<open>validUntil\<close>
  from the validity policy, and status \<open>valid\<close>. \<open>newId\<close> is the primary key of the row.
\<close>

definition newCertificate ::
  "TimeZone \<Rightarrow> string option \<Rightarrow> Date \<Rightarrow> string \<Rightarrow> CreateCertificateInput \<Rightarrow> string \<Rightarrow> Prisma
     \<Rightarrow> Certificate" where
  "newCertificate tz publicUrl now newId body home prisma =
     (let number = generateCertificateNumber tz now prisma;
          url = generateVerificationUrl publicUrl newId;
          valid_from = (case bodyValidFrom body of Some d \<Rightarrow> d | None \<Rightarrow> now);
          valid_until = calculateValidUntil tz (bodyCertType body) valid_from
      in \<lparr>resultId = bodyResultId body,
          certHomeId = home,
          certificateNumber = number,
          certType = bodyCertType body,
          certStatus = valid,
          verificationUrl = url,
          validFrom = valid_from,
          validUntil = valid_until\<rparr>)"

text \<open>
  Modelled from the spec: the handler of \<^verbatim>\<open>POST /certificates\<close>, which is missing from the
  sources. Generation is permitted only if the result exists, no certificate references
  it yet, and the requested type is the one of the session's kit type; the errors are
  the NotFound, Conflict and validation errors of section 7 (for the last the code's
  class is \<open>BadRequestError\<close>), and the messages here stand for theirs. On success the
  certificate is persisted and \<open>isImmutable\<close> of the result is set "in the same logical
  operation": one step from the database before to the database after.
\<close>

definition createCertificate ::
  "TimeZone \<Rightarrow> string option \<Rightarrow> Date \<Rightarrow> string \<Rightarrow> CreateCertificateInput \<Rightarrow> Prisma
     \<Rightarrow> (HttpError + Certificate) \<times> Prisma" where
  "createCertificate tz publicUrl now newId body prisma =
     (case findUnique (result prisma) (bodyResultId body) of
        None \<Rightarrow> (Inl (NotFoundError ''Result not found''), prisma)
      | Some res \<Rightarrow>
          (case findUnique (testSession prisma) (testSessionId res) of
             None \<Rightarrow> (Inl (NotFoundError ''Test session not found''), prisma)
           | Some session \<Rightarrow>
               if findUniqueWhere (\<lambda>c. resultId c = bodyResultId body) (certificate prisma)
                    \<noteq> None
               then (Inl (ConflictError ''A certificate already exists for this result''),
                     prisma)
               else if bodyCertType body \<noteq> expectedCertType (kitType session)
               then (Inl (BadRequestError ''Certificate type does not match the kit type''),
                     prisma)
               else
                 (let cert = newCertificate tz publicUrl now newId body (homeId session) prisma
                  in (Inr cert,
                      prisma\<lparr>certificate := createRow (certificate prisma) newId cert,
                             result := updateRow (result prisma) (bodyResultId body)
                               (\<lambda>r. r\<lparr>isImmutable := True\<rparr>)\<rparr>))))"

section \<open>Notions used in the statements\<close>

text \<open>The value of a string of decimal digits, as \<open>parseInt\<close> accumulates it.\<close>

definition digitsValue :: "string \<Rightarrow> int" where
  "digitsValue s = foldl (\<lambda>a c. 10 * a + digitValue c) 0 s"

text \<open>The prefix that \<open>generateCertificateNumber\<close> builds for a day, and the four-character
  form of a sequence number.\<close>

definition certificatePrefix :: "TimeZone \<Rightarrow> Date \<Rightarrow> string" where
  "certificatePrefix tz today = ''CP-'' @ formatDateForCertificate tz today @ ''-''"

definition sequenceString :: "int \<Rightarrow> string" where
  "sequenceString k = padStart 4 CHR ''0'' (numberToString k)"

text \<open>
  The certificate numbers of the day that the table holds are well formed with
  sequence numbers from 1 to \<open>m\<close>, and \<open>m\<close> is among them (none of the day when \<open>m = 0\<close>).
\<close>

definition issuedToday :: "TimeZone \<Rightarrow> Date \<Rightarrow> Prisma \<Rightarrow> int \<Rightarrow> bool" where
  "issuedToday tz today prisma m \<longleftrightarrow>
     (\<forall>c \<in> set (certificate prisma).
        startsWith (certificateNumber (snd c)) (certificatePrefix tz today) \<longrightarrow>
        certificateNumber (snd c)
          \<in> set (map (\<lambda>k. certificatePrefix tz today @ sequenceString k) [1..m]))
     \<and> (m = 0 \<or> (\<exists>c \<in> set (certificate prisma).
           certificateNumber (snd c) = certificatePrefix tz today @ sequenceString m))"

text \<open>The length of month \<open>m\<close> (0 is January) in a year with \<open>L\<close> leap days.\<close>

definition daysInMonth :: "int \<Rightarrow> int \<Rightarrow> int" where
  "daysInMonth m L =
     (if m = 1 then 28 + L
      else if m = 3 \<or> m = 5 \<or> m = 8 \<or> m = 10 then 30
      else 31)"

text \<open>The database after \<^verbatim>\<open>prisma.certificate.create\<close> has stored a certificate.\<close>

definition afterCertificateCreate :: "string \<Rightarrow> Certificate \<Rightarrow> Prisma \<Rightarrow> Prisma" where
  "afterCertificateCreate newId cert prisma =
     prisma\<lparr>certificate := createRow (certificate prisma) newId cert\<rparr>"

text \<open>
  Every certificate in the database belongs to a result that is immutable (or to none
  that the database holds).
\<close>

definition certifiedResultsImmutable :: "Prisma \<Rightarrow> bool" where
  "certifiedResultsImmutable prisma \<longleftrightarrow>
     (\<forall>c \<in> set (certificate prisma).
        case findUnique (result prisma) (resultId (snd c)) of
          None \<Rightarrow> True
        | Some r \<Rightarrow> isImmutable r)"

section \<open>Example data\<close>

text \<open>
  Two time zones: UTC, and the zone \<^verbatim>\<open>America/Toronto\<close> as it is between its transitions
  of 2 November 2025 and 14 March 2027 (for local times, from 02:00 of the former day):
  five hours behind UTC and, between 8 March 2026 at 07:00 UTC and 1 November 2026 at
  06:00 UTC, four hours behind. The local times from 02:00 to 03:00 of 8 March 2026 are
  skipped, those from 01:00 to 02:00 of 1 November 2026 repeated.
\<close>

definition zoneUTC :: TimeZone where
  "zoneUTC = \<lparr>offsetAt = (\<lambda>t. 0), offsetOfLocal = (\<lambda>t. 0)\<rparr>"

definition zoneToronto :: TimeZone where
  "zoneToronto =
     \<lparr>offsetAt = (\<lambda>t. if 1772953200000 \<le> t \<and> t < 1793512800000 then - 14400000
                      else - 18000000),
      offsetOfLocal = (\<lambda>t. if 1772938800000 \<le> t \<and> t < 1793498400000 then - 14400000
                           else - 18000000)\<rparr>"

text \<open>
  A long-term session in a given status with no dates set, and a database that holds
  one session.
\<close>

definition sessionIn :: "SessionStatus \<Rightarrow> TestSession" where
  "sessionIn st = \<lparr>homeId = ''home-1'', kitSerialNumber = ''KIT-001'', kitType = long_term,
     status = st, activatedAt = None, expectedCompletionDate = None, retrievalDueAt = None,
     retrievedAt = None, mailedAt = None\<rparr>"

definition databaseWith :: "TestSession \<Rightarrow> Prisma" where
  "databaseWith s = \<lparr>testSession = [(''session-1'', s)], result = [], certificate = []\<rparr>"

text \<open>A request to record 450 Bq/m3 for the session, and a stored result.\<close>

definition resultRequest :: CreateResultInput where
  "resultRequest = \<lparr>bodyTestSessionId = ''session-1'', bodyValueBqm3 = 450,
     bodyLabReference = Some ''LAB-2026-001'', bodyRecordedAt = 1772107200000\<rparr>"

definition storedResult :: "bool \<Rightarrow> Result" where
  "storedResult locked = \<lparr>testSessionId = ''session-1'', valueBqm3 = 450, zone = caution,
     labReference = Some ''LAB-2026-001'', enteredByUserId = ''admin-1'',
     isImmutable = locked, recordedAt = 1772107200000\<rparr>"

text \<open>A certificate of a result.\<close>

definition certificateFor :: "string \<Rightarrow> Certificate" where
  "certificateFor rid = \<lparr>resultId = rid, certHomeId = ''home-1'',
     certificateNumber = ''CP-20260226-0001'', certType = residential, certStatus = valid,
     verificationUrl = ''https://clearpathrd.com/verify/certificate-1'',
     validFrom = 1772107200000, validUntil = ValidDate 1835179200000\<rparr>"

text \<open>A certificate with a given number, a database with one result, and a request for a
  residential certificate of it; the same for a short-term kit and a real-estate
  certificate.\<close>

definition numbered :: "string \<Rightarrow> Certificate" where
  "numbered n = (certificateFor ''result-1'')\<lparr>certificateNumber := n\<rparr>"

definition databaseWithResult :: "bool \<Rightarrow> Prisma" where
  "databaseWithResult locked = \<lparr>testSession = [(''session-1'', sessionIn complete)],
     result = [(''result-1'', storedResult locked)], certificate = []\<rparr>"

definition certificateRequest :: CreateCertificateInput where
  "certificateRequest = \<lparr>bodyResultId = ''result-1'', bodyCertType = residential,
     bodyValidFrom = None\<rparr>"

definition databaseShortTerm :: Prisma where
  "databaseShortTerm =
     \<lparr>testSession = [(''session-1'', (sessionIn complete)\<lparr>kitType := real_estate_short\<rparr>)],
      result = [(''result-1'', storedResult False)], certificate = []\<rparr>"

definition realEstateRequest :: CreateCertificateInput where
  "realEstateRequest = \<lparr>bodyResultId = ''result-1'', bodyCertType = real_estate,
     bodyValidFrom = None\<rparr>"

section \<open>Theorems\<close>

subsection \<open>Adding days to a date\<close>

lemma MakeDate_add_days:
  "MakeDate (MakeDay (YearFromTime t) (MonthFromTime t) (DateFromTime t + n)) (TimeWithinDay t)
     = t + n * msPerDay"
proof -
  have m: "MonthFromTime t \<in> {0, 1, 2, 3, 4, 5, 6, 7, 8, 9, 10, 11}"
    unfolding MonthFromTime_def Let_def by simp
  have day: "MakeDay (YearFromTime t) (MonthFromTime t) (DateFromTime t + n) = Day t + n"
    using m
    unfolding MakeDay_def DateFromTime_def daysBeforeMonth_def DayWithinYear_def
      InLeapYear_def Let_def
    by auto
  have "Day t * msPerDay + TimeWithinDay t = t"
    unfolding Day_def TimeWithinDay_def by simp
  then show ?thesis
    unfolding MakeDate_def day
    by (simp add: algebra_simps)
qed

lemma setDate_getDate_add:
  "setDate tz t (getDate tz t + n) = TimeClip (UTC tz (LocalTime tz t + n * msPerDay))"
  by (simp add: setDate_def getDate_def Let_def MakeDate_add_days)

lemma calculateExpectedCompletionDate_add:
  "calculateExpectedCompletionDate tz k t =
     TimeClip (UTC tz (LocalTime tz t + (if k = long_term then 91 else 4) * msPerDay))"
  by (simp add: calculateExpectedCompletionDate_def setDate_getDate_add
      LONG_TERM_DURATION_DAYS_def SHORT_TERM_DURATION_DAYS_def)

lemma calculateRetrievalDueAt_add:
  "calculateRetrievalDueAt tz k t =
     TimeClip (UTC tz (LocalTime tz t + (if k = long_term then 80 else 2) * msPerDay))"
  by (simp add: calculateRetrievalDueAt_def setDate_getDate_add
      LONG_TERM_RETRIEVAL_DUE_DAYS_def SHORT_TERM_RETRIEVAL_DUE_DAYS_def)

lemma UTC_same_offset:
  "offsetOfLocal tz (LocalTime tz t + d) = offsetAt tz t \<Longrightarrow> UTC tz (LocalTime tz t + d) = t + d"
  by (simp add: UTC_def LocalTime_def)

lemma LocalTime_zoneUTC: "LocalTime zoneUTC t = t"
  by (simp add: LocalTime_def zoneUTC_def)

lemma UTC_zoneUTC: "UTC zoneUTC t = t"
  by (simp add: UTC_def zoneUTC_def)

lemma Day_add_days: "Day (t + n * msPerDay) = Day t + n"
  by (simp add: Day_def msPerDay_def)

lemma TimeWithinDay_add_days: "TimeWithinDay (t + n * msPerDay) = TimeWithinDay t"
  by (simp add: TimeWithinDay_def)

subsection \<open>Lookups after a write\<close>

lemma findUnique_updateRow:
  "findUnique (updateRow tbl k f) k' =
     (if k' = k then map_option f (findUnique tbl k) else findUnique tbl k')"
  by (induction tbl) (auto simp: findUnique_def updateRow_def)

lemma findUnique_databaseWith:
  "findUnique (testSession (databaseWith s)) ''session-1'' = Some s"
  by (simp add: databaseWith_def findUnique_def)

subsection \<open>The transition table\<close>

lemma validate_same: "validateStatusTransition st st = Inr ()"
  by (simp add: validateStatusTransition_def)

lemma validate_Inr:
  "validateStatusTransition a b = Inr u \<longleftrightarrow> a = b \<or> b \<in> set (STATE_TRANSITIONS a)"
  by (simp add: validateStatusTransition_def)

text \<open>
  Claim C1. For every pair of statuses, \<open>validateStatusTransition\<close> succeeds when the two
  are equal or the target is an allowed target of the current status, and otherwise
  fails with the error (a \<open>ConflictError\<close>) whose message carries the current status
  and the list of allowed targets; \<open>getNextAllowedStatuses\<close> returns the allowed targets
  of the transition table, the empty list for \<open>complete\<close>, \<open>expired\<close> and \<open>cancelled\<close>.
\<close>

theorem validateStatusTransition_table:
  "validateStatusTransition current target =
     (if current = target \<or> target \<in> set (getNextAllowedStatuses current) then Inr ()
      else Inl (ConflictError
        (''Cannot transition from '' @ quoted (statusString current) @ '' to ''
           @ quoted (statusString target) @ ''. Allowed transitions: [''
           @ join '', '' (map statusString (getNextAllowedStatuses current)) @ '']'')))
   \<and> getNextAllowedStatuses ordered = [active, cancelled]
   \<and> getNextAllowedStatuses active = [retrieval_due, cancelled]
   \<and> getNextAllowedStatuses retrieval_due = [mailed, expired, cancelled]
   \<and> getNextAllowedStatuses mailed = [results_pending, cancelled]
   \<and> getNextAllowedStatuses results_pending = [complete, cancelled]
   \<and> getNextAllowedStatuses complete = []
   \<and> getNextAllowedStatuses expired = []
   \<and> getNextAllowedStatuses cancelled = []"
  by (simp add: validateStatusTransition_def getNextAllowedStatuses_def transitionMessage_def)

subsection \<open>Executing a transition\<close>

lemma executeTransition_same:
  assumes "findUnique (testSession prisma) sid = Some s"
  shows "executeTransition tz now sid (status s) prisma =
     (Inr (), prisma\<lparr>testSession :=
        updateRow (testSession prisma) sid (\<lambda>row. row\<lparr>status := status s\<rparr>)\<rparr>)"
  using assms by (auto simp: executeTransition_def validate_same)

text \<open>
  Claim C10. On an existing session, \<open>executeTransition\<close> with the session's current status
  as the target succeeds, whatever that status is (the terminal ones included), and
  leaves every session as it was: it rewrites the same status value.
\<close>

theorem executeTransition_same_status:
  assumes "findUnique (testSession prisma) sid = Some s"
  shows "fst (executeTransition tz now sid (status s) prisma) = Inr ()
    \<and> findUnique (testSession (snd (executeTransition tz now sid (status s) prisma)))
        = findUnique (testSession prisma)
    \<and> result (snd (executeTransition tz now sid (status s) prisma)) = result prisma
    \<and> certificate (snd (executeTransition tz now sid (status s) prisma)) = certificate prisma"
proof -
  have "findUnique (updateRow (testSession prisma) sid (\<lambda>row. row\<lparr>status := status s\<rparr>)) k
      = findUnique (testSession prisma) k" for k
    using assms by (simp add: findUnique_updateRow)
  then show ?thesis
    unfolding executeTransition_same [OF assms] by auto
qed

theorem executeTransition_same_status_witness:
  "findUnique (testSession (databaseWith (sessionIn complete))) ''session-1''
      = Some (sessionIn complete)
   \<and> fst (executeTransition zoneUTC 1772107200000 ''session-1'' complete
        (databaseWith (sessionIn complete))) = Inr ()
   \<and> findUnique (testSession (snd (executeTransition zoneUTC 1772107200000 ''session-1'' complete
        (databaseWith (sessionIn complete))))) ''session-1''
      = Some (sessionIn complete)"
proof -
  have st: "status (sessionIn complete) = complete"
    by (simp add: sessionIn_def)
  show ?thesis
    using executeTransition_same_status [where prisma = "databaseWith (sessionIn complete)"
        and sid = "''session-1''" and s = "sessionIn complete" and now = 1772107200000 and tz = zoneUTC]
    by (simp add: st findUnique_databaseWith)
qed

lemma executeTransition_lookup:
  assumes "findUnique (testSession prisma) sid = Some s"
  shows "\<exists>s'. findUnique (testSession (snd (executeTransition tz now i st prisma))) sid = Some s'
     \<and> (status s' = status s \<or> status s' \<in> set (STATE_TRANSITIONS (status s)))
     \<and> (\<not> (i = sid \<and> status s = ordered \<and> st = active) \<longrightarrow>
          activatedAt s' = activatedAt s
          \<and> expectedCompletionDate s' = expectedCompletionDate s
          \<and> retrievalDueAt s' = retrievalDueAt s)"
proof (cases "i = sid")
  case False
  then show ?thesis
    using assms
    by (auto simp: executeTransition_def findUnique_updateRow Let_def
        split: option.splits sum.splits)
next
  case True
  show ?thesis
  proof (cases "validateStatusTransition (status s) st")
    case (Inl e)
    then show ?thesis using assms True by (simp add: executeTransition_def)
  next
    case (Inr u)
    then have "status s = st \<or> st \<in> set (STATE_TRANSITIONS (status s))"
      by (simp add: validate_Inr)
    then show ?thesis
      using assms True Inr
      by (auto simp: executeTransition_def findUnique_updateRow Let_def)
  qed
qed

text \<open>
  Claim C3. For a session in status \<open>ordered\<close>, \<open>executeTransition\<close> to \<open>active\<close> succeeds
  and, in the one write that sets the status, stamps \<open>activatedAt = now\<close> and sets
  \<open>expectedCompletionDate\<close> to \<open>now\<close> plus 91 calendar days for a \<open>long_term\<close> kit (4 for
  \<open>real_estate_short\<close>) and \<open>retrievalDueAt\<close> to \<open>now\<close> plus 80 calendar days (2 for
  \<open>real_estate_short\<close>), so the three fields are set afterwards. The days are days of the
  calendar of the process's time zone: the date is the instant that the zone gives for
  the local time of \<open>now\<close> moved on by that many days of 24 hours. Where that local time
  exists in the zone, the date has in local time the day number of \<open>now\<close> plus the days
  and the time of day of \<open>now\<close>; where the zone has the same offset from UTC at both
  ends, the date is \<open>now\<close> plus that many times 24 hours. Any other call of
  \<open>executeTransition\<close> leaves the three fields of the session as they were.
\<close>

theorem executeTransition_activation:
  assumes "findUnique (testSession prisma) sid = Some s"
  shows "(status s = ordered \<longrightarrow>
            fst (executeTransition tz now sid active prisma) = Inr ()
            \<and> findUnique (testSession (snd (executeTransition tz now sid active prisma))) sid =
                Some (s\<lparr>status := active, activatedAt := Some now,
                  expectedCompletionDate :=
                    Some (TimeClip (UTC tz (LocalTime tz now
                      + (if kitType s = long_term then 91 else 4) * msPerDay))),
                  retrievalDueAt :=
                    Some (TimeClip (UTC tz (LocalTime tz now
                      + (if kitType s = long_term then 80 else 2) * msPerDay)))\<rparr>))
       \<and> (LocalTime tz (UTC tz (LocalTime tz now + n * msPerDay))
              = LocalTime tz now + n * msPerDay \<longrightarrow>
            Day (LocalTime tz (UTC tz (LocalTime tz now + n * msPerDay)))
              = Day (LocalTime tz now) + n
            \<and> TimeWithinDay (LocalTime tz (UTC tz (LocalTime tz now + n * msPerDay)))
              = TimeWithinDay (LocalTime tz now))
       \<and> (offsetOfLocal tz (LocalTime tz now + n * msPerDay) = offsetAt tz now \<longrightarrow>
            TimeClip (UTC tz (LocalTime tz now + n * msPerDay)) = TimeClip (now + n * msPerDay))
       \<and> (\<not> (i = sid \<and> status s = ordered \<and> target = active) \<longrightarrow>
            (\<exists>s'. findUnique (testSession (snd (executeTransition tz now i target prisma))) sid
                     = Some s'
               \<and> activatedAt s' = activatedAt s
               \<and> expectedCompletionDate s' = expectedCompletionDate s
               \<and> retrievalDueAt s' = retrievalDueAt s))"
proof (intro conjI impI)
  assume o: "status s = ordered"
  then have v: "validateStatusTransition (status s) active = Inr ()"
    by (simp add: validateStatusTransition_def)
  show "fst (executeTransition tz now sid active prisma) = Inr ()"
    using assms o v by (simp add: executeTransition_def)
  show "findUnique (testSession (snd (executeTransition tz now sid active prisma))) sid =
      Some (s\<lparr>status := active, activatedAt := Some now,
        expectedCompletionDate :=
          Some (TimeClip (UTC tz (LocalTime tz now
            + (if kitType s = long_term then 91 else 4) * msPerDay))),
        retrievalDueAt :=
          Some (TimeClip (UTC tz (LocalTime tz now
            + (if kitType s = long_term then 80 else 2) * msPerDay)))\<rparr>)"
    using assms o v
    by (simp add: executeTransition_def findUnique_updateRow
        calculateExpectedCompletionDate_add calculateRetrievalDueAt_add)
next
  assume r: "LocalTime tz (UTC tz (LocalTime tz now + n * msPerDay))
      = LocalTime tz now + n * msPerDay"
  show "Day (LocalTime tz (UTC tz (LocalTime tz now + n * msPerDay)))
      = Day (LocalTime tz now) + n"
    unfolding r by (rule Day_add_days)
  show "TimeWithinDay (LocalTime tz (UTC tz (LocalTime tz now + n * msPerDay)))
      = TimeWithinDay (LocalTime tz now)"
    unfolding r by (rule TimeWithinDay_add_days)
next
  assume "offsetOfLocal tz (LocalTime tz now + n * msPerDay) = offsetAt tz now"
  then show "TimeClip (UTC tz (LocalTime tz now + n * msPerDay)) = TimeClip (now + n * msPerDay)"
    by (simp add: UTC_same_offset)
next
  assume "\<not> (i = sid \<and> status s = ordered \<and> target = active)"
  then show "\<exists>s'. findUnique (testSession (snd (executeTransition tz now i target prisma))) sid
                     = Some s'
               \<and> activatedAt s' = activatedAt s
               \<and> expectedCompletionDate s' = expectedCompletionDate s
               \<and> retrievalDueAt s' = retrievalDueAt s"
    using executeTransition_lookup [OF assms, of tz now i target] by auto
qed

text \<open>
  An activation in Toronto on 18 December 2025 at 02:30 local time (07:30 UTC). The
  completion date is 19 March 2026 at 02:30 local time, which is 06:30 UTC: daylight
  saving time has begun, and the date is an hour less than 91 times 24 hours after the
  activation. The retrieval date would be 8 March 2026 at 02:30 local time, which the
  zone skips; it is 07:30 UTC, 03:30 local time. In UTC the same session would get the
  dates 91 and 80 times 24 hours after the activation.
\<close>

theorem executeTransition_activation_witness:
  "findUnique (testSession (databaseWith (sessionIn ordered))) ''session-1''
      = Some (sessionIn ordered)
   \<and> fst (executeTransition zoneToronto 1766043000000 ''session-1'' active
        (databaseWith (sessionIn ordered))) = Inr ()
   \<and> findUnique (testSession (snd (executeTransition zoneToronto 1766043000000 ''session-1''
        active (databaseWith (sessionIn ordered))))) ''session-1''
      = Some ((sessionIn ordered)\<lparr>status := active, activatedAt := Some 1766043000000,
          expectedCompletionDate := Some (ValidDate 1773901800000),
          retrievalDueAt := Some (ValidDate 1772955000000)\<rparr>)
   \<and> 1773901800000 = 1766043000000 + 91 * msPerDay - 3600000
   \<and> Day (LocalTime zoneToronto 1773901800000)
      = Day (LocalTime zoneToronto 1766043000000) + 91
   \<and> TimeWithinDay (LocalTime zoneToronto 1773901800000)
      = TimeWithinDay (LocalTime zoneToronto 1766043000000)
   \<and> LocalTime zoneToronto 1772955000000
      = LocalTime zoneToronto 1766043000000 + 80 * msPerDay + 3600000
   \<and> TimeClip (UTC zoneUTC (LocalTime zoneUTC 1766043000000 + 91 * msPerDay))
      = ValidDate (1766043000000 + 91 * msPerDay)
   \<and> map_option activatedAt (findUnique (testSession (snd (executeTransition zoneToronto
        1766043000000 ''session-1'' cancelled (databaseWith (sessionIn ordered))))) ''session-1'')
      = Some None"
proof -
  have h: "findUnique (testSession (databaseWith (sessionIn ordered))) ''session-1''
      = Some (sessionIn ordered)"
    by (rule findUnique_databaseWith)
  have o: "status (sessionIn ordered) = ordered" "kitType (sessionIn ordered) = long_term"
    "activatedAt (sessionIn ordered) = None"
    by (simp_all add: sessionIn_def)
  have z: "LocalTime zoneToronto 1766043000000 = 1766025000000"
    "UTC zoneToronto 1773887400000 = 1773901800000"
    "UTC zoneToronto 1772937000000 = 1772955000000"
    "LocalTime zoneToronto 1772955000000 = 1772940600000"
    "LocalTime zoneToronto 1773901800000 = 1773887400000"
    "LocalTime zoneUTC 1766043000000 = 1766043000000"
    "offsetOfLocal zoneUTC 1773905400000 = offsetAt zoneUTC 1766043000000"
    by (simp_all add: LocalTime_def UTC_def zoneToronto_def zoneUTC_def)
  have c: "TimeClip 1773901800000 = ValidDate 1773901800000"
    "TimeClip 1772955000000 = ValidDate 1772955000000"
    "TimeClip 1773905400000 = ValidDate 1773905400000"
    by (simp_all add: TimeClip_def)
  show ?thesis
    using executeTransition_activation [OF h, of zoneToronto 1766043000000 91
        "''session-1''" cancelled]
      executeTransition_activation [OF h, of zoneUTC 1766043000000 91
        "''session-1''" cancelled] h o
    by (auto simp: msPerDay_def z c)
qed

subsection \<open>The operations that write a status\<close>

lemma executeTransition_status:
  assumes "findUnique (testSession prisma) sid = Some s"
  shows "\<exists>s'. findUnique (testSession (snd (executeTransition tz now i st prisma))) sid = Some s'
     \<and> (status s' = status s \<or> status s' \<in> set (STATE_TRANSITIONS (status s)))"
  using executeTransition_lookup [OF assms, of tz now i st] by blast

lemma putTestSession_status:
  assumes "findUnique (testSession prisma) sid = Some s"
  shows "\<exists>s'. findUnique (testSession (snd (putTestSession tz now i body prisma))) sid = Some s'
     \<and> (status s' = status s \<or> status s' \<in> set (STATE_TRANSITIONS (status s)))"
proof (cases "findUnique (testSession prisma) i")
  case None
  then show ?thesis using assms by (simp add: putTestSession_def)
next
  case (Some session)
  define transition where "transition =
    (case bodyStatus body of
       None \<Rightarrow> (Inr (), prisma)
     | Some st \<Rightarrow>
         (case validateStatusTransition (status session) st of
            Inl e \<Rightarrow> (Inl e, prisma)
          | Inr u \<Rightarrow> executeTransition tz now i st prisma))"
  have "snd transition = prisma \<or> (\<exists>st. snd transition = snd (executeTransition tz now i st prisma))"
    unfolding transition_def by (auto split: option.splits sum.splits)
  then have "\<exists>s1. findUnique (testSession (snd transition)) sid = Some s1
      \<and> (status s1 = status s \<or> status s1 \<in> set (STATE_TRANSITIONS (status s)))"
  proof
    assume "snd transition = prisma"
    then show ?thesis using assms by simp
  next
    assume "\<exists>st. snd transition = snd (executeTransition tz now i st prisma)"
    then obtain st where "snd transition = snd (executeTransition tz now i st prisma)" ..
    then show ?thesis using executeTransition_status [OF assms, of tz now i st] by simp
  qed
  then obtain s1 where s1: "findUnique (testSession (snd transition)) sid = Some s1"
    "status s1 = status s \<or> status s1 \<in> set (STATE_TRANSITIONS (status s))"
    by blast
  define updateData :: "TestSession \<Rightarrow> TestSession" where "updateData =
    (\<lambda>row. (case bodyMailedAt body of
               None \<Rightarrow> (\<lambda>r. r)
             | Some m \<Rightarrow> (\<lambda>r. r\<lparr>mailedAt := m\<rparr>))
            ((case bodyRetrievedAt body of
               None \<Rightarrow> (\<lambda>r. r)
             | Some d \<Rightarrow> (\<lambda>r. r\<lparr>retrievedAt := d\<rparr>)) row))"
  have upd: "status (updateData r) = status r" for r
    unfolding updateData_def by (simp split: option.splits)
  define prisma2 where "prisma2 =
    (if bodyRetrievedAt body \<noteq> None \<or> bodyMailedAt body \<noteq> None
     then (snd transition)\<lparr>testSession :=
            updateRow (testSession (snd transition)) i updateData\<rparr>
     else snd transition)"
  have p2: "\<exists>s2. findUnique (testSession prisma2) sid = Some s2 \<and> status s2 = status s1"
    unfolding prisma2_def using s1(1) by (auto simp: findUnique_updateRow upd)
  have res: "snd (putTestSession tz now i body prisma) = prisma2 \<or>
             snd (putTestSession tz now i body prisma) = snd transition"
    unfolding putTestSession_def prisma2_def updateData_def transition_def
    using Some by (simp add: Let_def split: sum.splits)
  show ?thesis using res p2 s1 by auto
qed

lemma retrieveTestSession_status:
  assumes "findUnique (testSession prisma) sid = Some s"
  shows "\<exists>s'. findUnique (testSession (snd (retrieveTestSession now i d prisma))) sid = Some s'
     \<and> status s' = status s"
  using assms
  by (auto simp: retrieveTestSession_def findUnique_updateRow Let_def split: option.splits)

lemma mailTestSession_status:
  assumes "findUnique (testSession prisma) sid = Some s"
  shows "\<exists>s'. findUnique (testSession (snd (mailTestSession now i d prisma))) sid = Some s'
     \<and> (status s' = status s
         \<or> status s = retrieval_due \<and> status s' = mailed
         \<or> status s = active \<and> status s' = mailed)"
  using assms
  by (auto simp: mailTestSession_def findUnique_updateRow Let_def split: option.splits)

lemma cancelTestSession_status:
  assumes "findUnique (testSession prisma) sid = Some s"
  shows "\<exists>s'. findUnique (testSession (snd (cancelTestSession tz now i prisma))) sid = Some s'
     \<and> (status s' = status s \<or> status s' \<in> set (STATE_TRANSITIONS (status s)))"
proof -
  have "snd (cancelTestSession tz now i prisma) = prisma \<or>
        snd (cancelTestSession tz now i prisma) = snd (executeTransition tz now i cancelled prisma)"
    by (auto simp: cancelTestSession_def split: option.splits sum.splits prod.splits)
  then show ?thesis
    using assms executeTransition_status [OF assms, of tz now i cancelled] by auto
qed

text \<open>
  Claim C2, as amended. After any of the operations that write a session's status
  (\<open>executeTransition\<close>, the PUT status update, and the retrieve, mail and cancel
  endpoints) every session is still there, and its status is the one it had, or an
  allowed target of the one it had, or (for the mail endpoint alone, which checks its
  own list of statuses rather than the transition table) \<open>mailed\<close> reached from \<open>active\<close>.
  A session in a terminal status (\<open>complete\<close>, \<open>expired\<close>, \<open>cancelled\<close>) keeps its status
  under every operation.
\<close>

theorem status_moves_along_graph_or_mail:
  assumes "findUnique (testSession prisma) sid = Some s"
  shows "\<exists>s'. findUnique (testSession (databaseAfter tz now op prisma)) sid = Some s'
     \<and> (status s' = status s
         \<or> status s' \<in> set (STATE_TRANSITIONS (status s))
         \<or> (\<exists>i d. op = MailTestSession i d) \<and> status s = active \<and> status s' = mailed)
     \<and> (status s \<in> {complete, expired, cancelled} \<longrightarrow> status s' = status s)"
proof -
  have main: "\<exists>s'. findUnique (testSession (databaseAfter tz now op prisma)) sid = Some s'
     \<and> (status s' = status s
         \<or> status s' \<in> set (STATE_TRANSITIONS (status s))
         \<or> (\<exists>i d. op = MailTestSession i d) \<and> status s = active \<and> status s' = mailed)"
  proof (cases op)
    case (ExecuteTransition i st)
    then show ?thesis using executeTransition_status [OF assms, of tz now i st] by auto
  next
    case (PutTestSession i body)
    then show ?thesis using putTestSession_status [OF assms, of tz now i body] by auto
  next
    case (RetrieveTestSession i d)
    then show ?thesis using retrieveTestSession_status [OF assms, of now i d] by auto
  next
    case (MailTestSession i d)
    then show ?thesis using mailTestSession_status [OF assms, of now i d] by auto
  next
    case (CancelTestSession i)
    then show ?thesis using cancelTestSession_status [OF assms, of tz now i] by auto
  qed
  then obtain s' where s': "findUnique (testSession (databaseAfter tz now op prisma)) sid = Some s'"
    "status s' = status s
         \<or> status s' \<in> set (STATE_TRANSITIONS (status s))
         \<or> (\<exists>i d. op = MailTestSession i d) \<and> status s = active \<and> status s' = mailed"
    by blast
  have "status s \<in> {complete, expired, cancelled} \<longrightarrow> status s' = status s"
    using s'(2) by auto
  then show ?thesis using s' by blast
qed

text \<open>
  The claim as stated fails: the mail endpoint moves a session from \<open>active\<close> to
  \<open>mailed\<close>, which is not a transition of the table.
\<close>

theorem mail_from_active_counterexample:
  "findUnique (testSession (databaseWith (sessionIn active))) ''session-1''
     = Some (sessionIn active)
   \<and> status (sessionIn active) = active
   \<and> map_option status (findUnique (testSession (databaseAfter zoneUTC 1772107200000
        (MailTestSession ''session-1'' None) (databaseWith (sessionIn active)))) ''session-1'')
     = Some mailed
   \<and> mailed \<noteq> active
   \<and> mailed \<notin> set (STATE_TRANSITIONS active)"
  by (simp add: databaseWith_def sessionIn_def findUnique_def mailTestSession_def updateRow_def)

theorem status_moves_along_graph_or_mail_witness:
  "findUnique (testSession (databaseWith (sessionIn cancelled))) ''session-1''
     = Some (sessionIn cancelled)
   \<and> map_option status (findUnique (testSession (databaseAfter zoneUTC 1772107200000
        (PutTestSession ''session-1''
           \<lparr>bodyStatus = Some active, bodyRetrievedAt = None, bodyMailedAt = None\<rparr>)
        (databaseWith (sessionIn cancelled)))) ''session-1'')
     = Some cancelled"
proof -
  have st: "status (sessionIn cancelled) = cancelled"
    by (simp add: sessionIn_def)
  show ?thesis
    using status_moves_along_graph_or_mail [where prisma = "databaseWith (sessionIn cancelled)"
        and sid = "''session-1''" and s = "sessionIn cancelled" and now = 1772107200000 and tz = zoneUTC
        and op = "PutTestSession ''session-1''
           \<lparr>bodyStatus = Some active, bodyRetrievedAt = None, bodyMailedAt = None\<rparr>"]
    by (auto simp: st findUnique_databaseWith)
qed

subsection \<open>Failures of \<open>executeTransition\<close>\<close>


lemma executeTransition_unknown_id:
  assumes "findUnique (testSession prisma) sid = None"
  shows "executeTransition tz now sid target prisma =
     (Inl (ConflictError ''Test session not found''), prisma)"
  using assms by (simp add: executeTransition_def)



subsection \<open>Risk classification\<close>

text \<open>
  Claim C9. \<open>calculateRiskZone\<close> maps a concentration below 200 to \<open>below_guideline\<close>,
  from 200 and below 600 to \<open>caution\<close>, from 600 and below 800 to \<open>action_required\<close>, and
  from 800 to \<open>urgent_action\<close>; \<open>isValidRadonMeasurement\<close> accepts exactly the values
  from 0 to 10000.
\<close>

theorem calculateRiskZone_bands:
  "calculateRiskZone v =
     (if v < 200 then below_guideline
      else if v < 600 then caution
      else if v < 800 then action_required
      else urgent_action)
   \<and> calculateRiskZone 199 = below_guideline
   \<and> calculateRiskZone 200 = caution
   \<and> calculateRiskZone 599 = caution
   \<and> calculateRiskZone 600 = action_required
   \<and> calculateRiskZone 799 = action_required
   \<and> calculateRiskZone 800 = urgent_action
   \<and> (isValidRadonMeasurement v \<longleftrightarrow> 0 \<le> v \<and> v \<le> 10000)
   \<and> \<not> isValidRadonMeasurement (- 1)
   \<and> isValidRadonMeasurement 10000
   \<and> \<not> isValidRadonMeasurement 10001"
  by (simp add: calculateRiskZone_def isValidRadonMeasurement_def THRESHOLD_GUIDELINE_def
      THRESHOLD_CAUTION_def THRESHOLD_ACTION_def MIN_RADON_VALUE_def MAX_RADON_VALUE_def)

subsection \<open>Recording a result\<close>

lemma findUnique_createRow_other:
  "findUnique (createRow tbl k v) k' =
     (case findUnique tbl k' of Some w \<Rightarrow> Some w | None \<Rightarrow> if k' = k then Some v else None)"
  by (simp add: findUnique_def createRow_def map_add_def split: option.splits)

lemma createResult_rejects_status:
  assumes "findUnique (testSession prisma) (bodyTestSessionId body) = Some s"
    and "isValidRadonMeasurement (bodyValueBqm3 body)"
    and "status s \<notin> {mailed, results_pending, complete}"
  shows "createResult tz now userId newId body prisma =
     (Inl (BadRequestError (sessionStatusMessage (status s))), prisma)"
  using assms by (simp add: createResult_def)

lemma createResult_rejects_second:
  assumes "findUnique (testSession prisma) (bodyTestSessionId body) = Some s"
    and "isValidRadonMeasurement (bodyValueBqm3 body)"
    and "status s \<in> {mailed, results_pending, complete}"
    and "findUniqueWhere (\<lambda>r. testSessionId r = bodyTestSessionId body) (result prisma) = Some e"
  shows "createResult tz now userId newId body prisma =
     (Inl (ConflictError ''A result already exists for this test session''), prisma)"
  using assms by (auto simp: createResult_def)

lemma createResult_results_pending:
  assumes "findUnique (testSession prisma) (bodyTestSessionId body) = Some s"
    and "isValidRadonMeasurement (bodyValueBqm3 body)"
    and "status s = results_pending"
    and "findUniqueWhere (\<lambda>r. testSessionId r = bodyTestSessionId body) (result prisma) = None"
  shows "\<exists>created. fst (createResult tz now userId newId body prisma) = Inr created
     \<and> zone created = calculateRiskZone (bodyValueBqm3 body)
     \<and> isImmutable created = False
     \<and> findUnique (testSession (snd (createResult tz now userId newId body prisma)))
          (bodyTestSessionId body) = Some (s\<lparr>status := complete\<rparr>)"
  using assms
  by (simp add: createResult_def executeTransition_def validateStatusTransition_def
      findUnique_updateRow Let_def)

lemma createResult_complete:
  assumes "findUnique (testSession prisma) (bodyTestSessionId body) = Some s"
    and "isValidRadonMeasurement (bodyValueBqm3 body)"
    and "status s = complete"
    and "findUniqueWhere (\<lambda>r. testSessionId r = bodyTestSessionId body) (result prisma) = None"
  shows "\<exists>created. fst (createResult tz now userId newId body prisma) = Inr created
     \<and> zone created = calculateRiskZone (bodyValueBqm3 body)
     \<and> testSession (snd (createResult tz now userId newId body prisma)) = testSession prisma"
  using assms
  by (simp add: createResult_def Let_def)

text \<open>
  Claim C4. Creation is refused unless the session is in \<open>mailed\<close>, \<open>results_pending\<close> or
  \<open>complete\<close> (lemma \<open>createResult_rejects_status\<close>) and fails with a conflict when the
  session has a result (lemma \<open>createResult_rejects_second\<close>); from \<open>results_pending\<close>
  the session is driven to \<open>complete\<close> and from \<open>complete\<close> it is left alone (lemmas
  \<open>createResult_results_pending\<close>, \<open>createResult_complete\<close>). From \<open>mailed\<close> the claim says
  the transition to \<open>complete\<close> applies; the transition table has no such edge, so
  \<open>executeTransition\<close> throws after the result row has been written. The evaluation
  below is that request: a session in \<open>mailed\<close>, no result yet, 450 Bq/m3.
\<close>

theorem createResult_from_mailed_conflict:
  "createResult zoneUTC 1772107200000 ''admin-1'' ''result-1'' resultRequest
      (databaseWith (sessionIn mailed))
     = (Inl (ConflictError (''Cannot transition from '' @ quoted ''mailed'' @ '' to ''
              @ quoted ''complete'' @ ''. Allowed transitions: [results_pending, cancelled]'')),
        \<lparr>testSession = [(''session-1'', sessionIn mailed)],
         result = [(''result-1'', storedResult False)],
         certificate = []\<rparr>)"
  by (simp add: createResult_def resultRequest_def databaseWith_def sessionIn_def
      storedResult_def findUnique_def findUniqueWhere_def createRow_def
      isValidRadonMeasurement_def MIN_RADON_VALUE_def MAX_RADON_VALUE_def
      calculateRiskZone_def THRESHOLD_GUIDELINE_def THRESHOLD_CAUTION_def
      THRESHOLD_ACTION_def executeTransition_def validateStatusTransition_def
      transitionMessage_def quoted_def)

subsection \<open>Immutable results\<close>





subsection \<open>The calendar\<close>

lemma div_step:
  fixes a n :: int
  assumes "0 < n"
  shows "(a + 1) div n = a div n + (if (a + 1) mod n = 0 then 1 else 0)"
proof -
  define q where "q = a div n"
  define r where "r = a mod n"
  have e: "a = n * q + r" unfolding q_def r_def by simp
  have r: "0 \<le> r" "r < n" unfolding r_def using assms by simp_all
  show ?thesis
  proof (cases "r = n - 1")
    case True
    then have eq: "a + 1 = n * (q + 1) + 0"
      using e by (simp add: algebra_simps)
    have "(a + 1) div n = q + 1"
      by (rule int_div_pos_eq [OF eq]) (use assms in simp_all)
    moreover have "(a + 1) mod n = 0"
      by (rule int_mod_pos_eq [OF eq]) (use assms in simp_all)
    ultimately show ?thesis by (simp add: q_def)
  next
    case False
    then have lt: "r + 1 < n" using r by linarith
    have eq: "a + 1 = n * q + (r + 1)" using e by simp
    have "(a + 1) div n = q"
      by (rule int_div_pos_eq [OF eq]) (use r lt in simp_all)
    moreover have "(a + 1) mod n = r + 1"
      by (rule int_mod_pos_eq [OF eq]) (use r lt in simp_all)
    ultimately show ?thesis using r by (simp add: q_def)
  qed
qed

lemma DayFromYear_next: "DayFromYear (y + 1) = DayFromYear y + DaysInYear y"
proof -
  define A where "A = (y - 1969) div 4"
  define B where "B = (y - 1901) div 100"
  define C where "C = (y - 1601) div 400"
  have m4: "(y - 1968) mod 4 = y mod 4"
    using mod_mult_self1 [of y "- 492" 4] by simp
  have m100: "(y - 1900) mod 100 = y mod 100"
    using mod_mult_self1 [of y "- 19" 100] by simp
  have m400: "(y - 1600) mod 400 = y mod 400"
    using mod_mult_self1 [of y "- 4" 400] by simp
  have a: "(y + 1 - 1969) div 4 = A + (if y mod 4 = 0 then 1 else 0)"
    using div_step [of 4 "y - 1969"] m4 by (simp add: A_def)
  have b: "(y + 1 - 1901) div 100 = B + (if y mod 100 = 0 then 1 else 0)"
    using div_step [of 100 "y - 1901"] m100 by (simp add: B_def)
  have c: "(y + 1 - 1601) div 400 = C + (if y mod 400 = 0 then 1 else 0)"
    using div_step [of 400 "y - 1601"] m400 by (simp add: C_def)
  have d100: "y mod 100 = 0 \<Longrightarrow> y mod 4 = 0"
    using mod_mod_cancel [of 4 100 y] by simp
  have d400: "y mod 400 = 0 \<Longrightarrow> y mod 100 = 0"
    using mod_mod_cancel [of 100 400 y] by simp
  have "DayFromYear (y + 1) =
      365 * (y + 1 - 1970) + (A + (if y mod 4 = 0 then 1 else 0))
        - (B + (if y mod 100 = 0 then 1 else 0)) + (C + (if y mod 400 = 0 then 1 else 0))"
    unfolding DayFromYear_def a b c ..
  moreover have "DayFromYear y = 365 * (y - 1970) + A - B + C"
    unfolding DayFromYear_def A_def B_def C_def ..
  ultimately show ?thesis
    using d100 d400 by (auto simp: DaysInYear_def)
qed

lemma DaysInYear_cases: "DaysInYear y = 365 \<or> DaysInYear y = 366"
  by (simp add: DaysInYear_def)

lemma DaysInYear_leapDays: "DaysInYear y = 365 + leapDays y"
  using DaysInYear_cases [of y] by (auto simp: leapDays_def)

lemma leapDays_cases: "leapDays y = 0 \<or> leapDays y = 1"
  by (simp add: leapDays_def)

lemma DayFromYear_less_next: "DayFromYear y < DayFromYear (y + 1)"
  using DaysInYear_cases [of y] by (auto simp: DayFromYear_next)

lemma DayFromYear_mono: "y \<le> y' \<Longrightarrow> DayFromYear y \<le> DayFromYear y'"
proof (induction y' rule: int_ge_induct)
  case base
  show ?case by simp
next
  case (step i)
  then show ?case using DayFromYear_less_next [of i] by linarith
qed

lemma yearDown_le: "DayFromYear (yearDown d y) \<le> d"
proof (induction d y rule: yearDown.induct)
  case (1 d y)
  show ?case
  proof (cases "d < DayFromYear y")
    case True
    then show ?thesis using 1 by (subst yearDown.simps) simp
  next
    case False
    then show ?thesis by (subst yearDown.simps) simp
  qed
qed

lemma yearUp_bounds:
  "DayFromYear y \<le> d \<Longrightarrow>
     DayFromYear (yearUp d y) \<le> d \<and> d < DayFromYear (yearUp d y + 1)"
proof (induction d y rule: yearUp.induct)
  case (1 d y)
  show ?case
  proof (cases "DayFromYear (y + 1) \<le> d")
    case True
    then show ?thesis using 1 by (subst (1 2) yearUp.simps) simp
  next
    case False
    then show ?thesis using 1 by (subst (1 2) yearUp.simps) simp
  qed
qed

lemma YearFromDay_bounds:
  "DayFromYear (YearFromDay d) \<le> d \<and> d < DayFromYear (YearFromDay d + 1)"
  unfolding YearFromDay_def by (rule yearUp_bounds) (rule yearDown_le)

lemma YearFromDay_unique:
  assumes "DayFromYear y \<le> d" and "d < DayFromYear (y + 1)"
  shows "YearFromDay d = y"
proof (rule ccontr)
  assume ne: "YearFromDay d \<noteq> y"
  have b: "DayFromYear (YearFromDay d) \<le> d" "d < DayFromYear (YearFromDay d + 1)"
    using YearFromDay_bounds [of d] by simp_all
  show False
  proof (cases "YearFromDay d < y")
    case True
    then have "DayFromYear (YearFromDay d + 1) \<le> DayFromYear y"
      by (intro DayFromYear_mono) simp
    then show False using b assms by linarith
  next
    case False
    then have "y + 1 \<le> YearFromDay d" using ne by simp
    then have "DayFromYear (y + 1) \<le> DayFromYear (YearFromDay d)"
      by (rule DayFromYear_mono)
    then show False using b assms by linarith
  qed
qed

lemma DayWithinYear_bounds:
  "0 \<le> DayWithinYear t \<and> DayWithinYear t < 365 + InLeapYear t"
  using YearFromDay_bounds [of "Day t"]
  by (simp add: DayWithinYear_def YearFromTime_def InLeapYear_def DayFromYear_next
      DaysInYear_leapDays)

lemma MonthFromTime_range: "0 \<le> MonthFromTime t \<and> MonthFromTime t \<le> 11"
  by (simp add: MonthFromTime_def Let_def)

lemma DateFromTime_range: "1 \<le> DateFromTime t \<and> DateFromTime t \<le> 31"
proof -
  have L: "InLeapYear t = 0 \<or> InLeapYear t = 1"
    unfolding InLeapYear_def by (rule leapDays_cases)
  show ?thesis
    using DayWithinYear_bounds [of t] L
    unfolding DateFromTime_def MonthFromTime_def Let_def
    by auto
qed

lemma YearFromTime_example: "YearFromTime 1772107200000 = 2026"
  unfolding YearFromTime_def
  by (rule YearFromDay_unique) (simp_all add: Day_def msPerDay_def DayFromYear_def)

lemma Day_MakeDate: "0 \<le> tw \<Longrightarrow> tw < msPerDay \<Longrightarrow> Day (MakeDate d tw) = d"
  unfolding Day_def MakeDate_def
  by (rule int_div_pos_eq [of _ _ _ tw]) (simp_all add: algebra_simps)

lemma TimeWithinDay_MakeDate:
  "0 \<le> tw \<Longrightarrow> tw < msPerDay \<Longrightarrow> TimeWithinDay (MakeDate d tw) = tw"
  unfolding TimeWithinDay_def MakeDate_def
  by (rule int_mod_pos_eq [of _ _ d]) (simp_all add: algebra_simps)

lemma TimeWithinDay_range: "0 \<le> TimeWithinDay t \<and> TimeWithinDay t < msPerDay"
  by (simp add: TimeWithinDay_def msPerDay_def)

lemma leap_then_not_leap: "leapDays y = 1 \<Longrightarrow> leapDays (y + 2) = 0"
proof -
  assume "leapDays y = 1"
  then have "y mod 4 = 0"
    by (auto simp: leapDays_def DaysInYear_def split: if_splits)
  then have "(y + 2) mod 4 = 2"
    using mod_add_eq [of y 4 2] by simp
  then show ?thesis by (simp add: leapDays_def DaysInYear_def)
qed

text \<open>A day given by its year and its day within the year.\<close>

lemma calendar_of_day:
  assumes "0 \<le> w" and "w < 365 + leapDays y" and "0 \<le> tw" and "tw < msPerDay"
  shows "YearFromTime (MakeDate (DayFromYear y + w) tw) = y"
    and "DayWithinYear (MakeDate (DayFromYear y + w) tw) = w"
    and "InLeapYear (MakeDate (DayFromYear y + w) tw) = leapDays y"
proof -
  have d: "Day (MakeDate (DayFromYear y + w) tw) = DayFromYear y + w"
    using assms by (simp add: Day_MakeDate)
  show y: "YearFromTime (MakeDate (DayFromYear y + w) tw) = y"
    unfolding YearFromTime_def d
    by (rule YearFromDay_unique) (use assms in \<open>simp_all add: DayFromYear_next DaysInYear_leapDays\<close>)
  show "DayWithinYear (MakeDate (DayFromYear y + w) tw) = w"
    by (simp add: DayWithinYear_def d y)
  show "InLeapYear (MakeDate (DayFromYear y + w) tw) = leapDays y"
    by (simp add: InLeapYear_def y)
qed

lemma month_cases:
  fixes m :: int
  assumes "0 \<le> m" "m \<le> 11"
  shows "m = 0 \<or> m = 1 \<or> m = 2 \<or> m = 3 \<or> m = 4 \<or> m = 5 \<or> m = 6 \<or> m = 7 \<or> m = 8
    \<or> m = 9 \<or> m = 10 \<or> m = 11"
  using assms by arith

lemma month_date_at:
  assumes L: "InLeapYear r = 0 \<or> InLeapYear r = 1"
    and m: "0 \<le> m" "m \<le> 11"
    and d: "1 \<le> d" "d \<le> daysInMonth m (InLeapYear r)"
    and w: "DayWithinYear r = daysBeforeMonth m (InLeapYear r) + d - 1"
  shows "MonthFromTime r = m \<and> DateFromTime r = d"
proof -
  have "MonthFromTime r = m"
    using month_cases [OF m] L d
    unfolding MonthFromTime_def Let_def w
    by (elim disjE) (simp_all add: daysBeforeMonth_def daysInMonth_def)
  moreover from this have "DateFromTime r = d"
    using month_cases [OF m]
    unfolding DateFromTime_def Let_def w
    by (elim disjE) (simp_all add: daysBeforeMonth_def)
  ultimately show ?thesis by simp
qed

lemma date_in_month:
  "1 \<le> DateFromTime t
   \<and> DateFromTime t \<le> daysInMonth (MonthFromTime t) (InLeapYear t)
   \<and> DayWithinYear t = daysBeforeMonth (MonthFromTime t) (InLeapYear t) + DateFromTime t - 1"
proof -
  define w where "w = DayWithinYear t"
  define L where "L = InLeapYear t"
  have wb: "0 \<le> w" "w < 365 + L"
    using DayWithinYear_bounds [of t] by (simp_all add: w_def L_def)
  have Lc: "L = 0 \<or> L = 1" unfolding L_def InLeapYear_def by (rule leapDays_cases)
  have M: "MonthFromTime t =
     (if w < 31 then 0 else if w < 59 + L then 1 else if w < 90 + L then 2
      else if w < 120 + L then 3 else if w < 151 + L then 4 else if w < 181 + L then 5
      else if w < 212 + L then 6 else if w < 243 + L then 7 else if w < 273 + L then 8
      else if w < 304 + L then 9 else if w < 334 + L then 10 else 11)"
    by (simp add: MonthFromTime_def w_def L_def Let_def)
  consider (m0) "MonthFromTime t = 0" "w < 31"
    | (m1) "MonthFromTime t = 1" "31 \<le> w" "w < 59 + L"
    | (m2) "MonthFromTime t = 2" "59 + L \<le> w" "w < 90 + L"
    | (m3) "MonthFromTime t = 3" "90 + L \<le> w" "w < 120 + L"
    | (m4) "MonthFromTime t = 4" "120 + L \<le> w" "w < 151 + L"
    | (m5) "MonthFromTime t = 5" "151 + L \<le> w" "w < 181 + L"
    | (m6) "MonthFromTime t = 6" "181 + L \<le> w" "w < 212 + L"
    | (m7) "MonthFromTime t = 7" "212 + L \<le> w" "w < 243 + L"
    | (m8) "MonthFromTime t = 8" "243 + L \<le> w" "w < 273 + L"
    | (m9) "MonthFromTime t = 9" "273 + L \<le> w" "w < 304 + L"
    | (m10) "MonthFromTime t = 10" "304 + L \<le> w" "w < 334 + L"
    | (m11) "MonthFromTime t = 11" "334 + L \<le> w"
    using M by (auto split: if_splits)
  then show ?thesis
    using wb Lc
    by cases
      (simp_all add: DateFromTime_def Let_def w_def [symmetric] L_def [symmetric]
        daysInMonth_def daysBeforeMonth_def)
qed

lemma days_before_month_end:
  assumes "0 \<le> m" "m \<le> 11" "L = 0 \<or> L = 1"
  shows "0 \<le> daysBeforeMonth m L \<and> daysBeforeMonth m L + daysInMonth m L \<le> 365 + L"
  using month_cases [OF assms(1,2)] assms(3)
  by (elim disjE) (simp_all add: daysBeforeMonth_def daysInMonth_def)

text \<open>The same day of the month and time of day two years later, in local time.\<close>

lemma MakeDate_two_years:
  "YearFromTime (MakeDate (MakeDay (YearFromTime t + 2) (MonthFromTime t) (DateFromTime t))
      (TimeWithinDay t)) = YearFromTime t + 2
   \<and> TimeWithinDay (MakeDate (MakeDay (YearFromTime t + 2) (MonthFromTime t) (DateFromTime t))
      (TimeWithinDay t)) = TimeWithinDay t
   \<and> (if MonthFromTime t = 1 \<and> DateFromTime t = 29
       then MonthFromTime (MakeDate (MakeDay (YearFromTime t + 2) (MonthFromTime t)
              (DateFromTime t)) (TimeWithinDay t)) = 2
          \<and> DateFromTime (MakeDate (MakeDay (YearFromTime t + 2) (MonthFromTime t)
              (DateFromTime t)) (TimeWithinDay t)) = 1
       else MonthFromTime (MakeDate (MakeDay (YearFromTime t + 2) (MonthFromTime t)
              (DateFromTime t)) (TimeWithinDay t)) = MonthFromTime t
          \<and> DateFromTime (MakeDate (MakeDay (YearFromTime t + 2) (MonthFromTime t)
              (DateFromTime t)) (TimeWithinDay t)) = DateFromTime t)"
proof -
  define Y where "Y = YearFromTime t"
  define L where "L = leapDays Y"
  define L2 where "L2 = leapDays (Y + 2)"
  define M where "M = MonthFromTime t"
  define D where "D = DateFromTime t"
  define tw where "tw = TimeWithinDay t"
  define w' where "w' = daysBeforeMonth M L2 + D - 1"
  define r where "r = MakeDate (MakeDay (Y + 2) M D) tw"
  have il: "InLeapYear t = L" by (simp add: InLeapYear_def L_def Y_def)
  have Lc: "L = 0 \<or> L = 1" unfolding L_def by (rule leapDays_cases)
  have L2c: "L2 = 0 \<or> L2 = 1" unfolding L2_def by (rule leapDays_cases)
  have leap: "L = 1 \<Longrightarrow> L2 = 0" unfolding L_def L2_def by (rule leap_then_not_leap)
  have twb: "0 \<le> tw" "tw < msPerDay" using TimeWithinDay_range [of t] by (simp_all add: tw_def)
  have Mr: "0 \<le> M" "M \<le> 11" using MonthFromTime_range [of t] by (simp_all add: M_def)
  have Dr: "1 \<le> D" "D \<le> daysInMonth M L"
    using date_in_month [of t] by (simp_all add: D_def M_def il)
  have md: "MakeDay (Y + 2) M D = DayFromYear (Y + 2) + w'"
    using Mr by (simp add: MakeDay_def Let_def w'_def L2_def)
  have rdef: "r = MakeDate (DayFromYear (Y + 2) + w') tw"
    by (simp add: r_def md)
  have dim: "daysInMonth M L \<le> daysInMonth M L2 + 1" "M \<noteq> 1 \<Longrightarrow> daysInMonth M L = daysInMonth M L2"
    using Lc L2c by (auto simp: daysInMonth_def)
  have be: "0 \<le> daysBeforeMonth M L2" "daysBeforeMonth M L2 + daysInMonth M L2 \<le> 365 + L2"
    using days_before_month_end [OF Mr L2c] by simp_all
  have feb29: "M = 1 \<and> D = 29 \<Longrightarrow> L = 1 \<and> L2 = 0"
    using Dr Lc leap by (auto simp: daysInMonth_def)
  have w'b: "0 \<le> w'" "w' < 365 + L2"
  proof -
    show "0 \<le> w'" using be Dr by (simp add: w'_def)
    show "w' < 365 + L2"
    proof (cases "M = 1 \<and> D = 29")
      case True
      then show ?thesis using feb29 by (simp add: w'_def daysBeforeMonth_def)
    next
      case False
      then have "D \<le> daysInMonth M L2"
        using Dr dim Lc L2c by (cases "M = 1") (auto simp: daysInMonth_def)
      then show ?thesis using be by (simp add: w'_def)
    qed
  qed
  have yr: "YearFromTime r = Y + 2" and dwr: "DayWithinYear r = w'" and ilr: "InLeapYear r = L2"
    using calendar_of_day [of w' "Y + 2" tw] w'b twb by (simp_all add: rdef L2_def)
  have twr: "TimeWithinDay r = tw"
    using twb by (simp add: rdef TimeWithinDay_MakeDate)
  have feb: "MonthFromTime r = 2 \<and> DateFromTime r = 1" if "M = 1 \<and> D = 29"
  proof (rule month_date_at)
    show "InLeapYear r = 0 \<or> InLeapYear r = 1" using L2c by (simp add: ilr)
    show "DayWithinYear r = daysBeforeMonth 2 (InLeapYear r) + 1 - 1"
      using that feb29 by (simp add: dwr ilr w'_def daysBeforeMonth_def)
  qed (simp_all add: daysInMonth_def)
  have other: "MonthFromTime r = M \<and> DateFromTime r = D" if "\<not> (M = 1 \<and> D = 29)"
  proof (rule month_date_at)
    show "InLeapYear r = 0 \<or> InLeapYear r = 1" using L2c by (simp add: ilr)
    show "D \<le> daysInMonth M (InLeapYear r)"
      using that Dr dim Lc L2c by (cases "M = 1") (auto simp: ilr daysInMonth_def)
    show "DayWithinYear r = daysBeforeMonth M (InLeapYear r) + D - 1"
      by (simp add: dwr ilr w'_def)
  qed (use Mr Dr in simp_all)
  show ?thesis
    using yr twr feb other
    by (simp add: r_def Y_def M_def D_def tw_def)
qed

lemma setFullYear_two_years:
  "\<exists>x. setFullYear tz tv (getFullYear tz tv + 2) = TimeClip (UTC tz x)
     \<and> YearFromTime x = getFullYear tz tv + 2
     \<and> TimeWithinDay x = TimeWithinDay (LocalTime tz tv)
     \<and> (if getMonth tz tv = 1 \<and> getDate tz tv = 29
         then MonthFromTime x = 2 \<and> DateFromTime x = 1
         else MonthFromTime x = getMonth tz tv \<and> DateFromTime x = getDate tz tv)"
proof -
  define x where "x = MakeDate (MakeDay (YearFromTime (LocalTime tz tv) + 2)
    (MonthFromTime (LocalTime tz tv)) (DateFromTime (LocalTime tz tv)))
    (TimeWithinDay (LocalTime tz tv))"
  have a: "setFullYear tz tv (getFullYear tz tv + 2) = TimeClip (UTC tz x)"
    by (simp add: setFullYear_def getFullYear_def Let_def x_def)
  have b: "YearFromTime x = getFullYear tz tv + 2
     \<and> TimeWithinDay x = TimeWithinDay (LocalTime tz tv)
     \<and> (if getMonth tz tv = 1 \<and> getDate tz tv = 29
         then MonthFromTime x = 2 \<and> DateFromTime x = 1
         else MonthFromTime x = getMonth tz tv \<and> DateFromTime x = getDate tz tv)"
    unfolding x_def getFullYear_def getMonth_def getDate_def
    by (rule MakeDate_two_years)
  show ?thesis using a b by blast
qed

lemma calendar_example:
  "getFullYear zoneUTC 1772107200000 = 2026" "getMonth zoneUTC 1772107200000 = 1"
  "getDate zoneUTC 1772107200000 = 26"
  by (simp_all add: getFullYear_def getMonth_def getDate_def LocalTime_zoneUTC
      MonthFromTime_def DateFromTime_def
      DayWithinYear_def InLeapYear_def leapDays_def DaysInYear_def YearFromTime_example
      Day_def msPerDay_def DayFromYear_def Let_def)

lemma formatDate_example: "formatDateForCertificate zoneUTC 1772107200000 = ''20260226''"
  by (simp add: formatDateForCertificate_def calendar_example numberToString_def padStart_def
      digitsOfNat.simps digitChar_def)

subsection \<open>Digits\<close>

lemma isDigit_cases:
  "isDigit c \<Longrightarrow> c = CHR ''0'' \<or> c = CHR ''1'' \<or> c = CHR ''2'' \<or> c = CHR ''3''
     \<or> c = CHR ''4'' \<or> c = CHR ''5'' \<or> c = CHR ''6'' \<or> c = CHR ''7'' \<or> c = CHR ''8''
     \<or> c = CHR ''9''"
  by (auto simp: isDigit_def)

lemma isDigit_not_special:
  "isDigit c \<Longrightarrow> \<not> isWhiteSpace c \<and> c \<noteq> CHR ''-'' \<and> c \<noteq> CHR ''+''"
  by (auto simp: isWhiteSpace_def dest!: isDigit_cases)

lemma isDigit_value: "isDigit c \<Longrightarrow> 0 \<le> digitValue c \<and> digitValue c \<le> 9"
  by (auto simp: digitValue_def dest!: isDigit_cases)

lemma digit_index:
  fixes n :: nat
  shows "n < 10 \<Longrightarrow> n \<in> set [0, 1, 2, 3, 4, 5, 6, 7, 8, 9]"
proof -
  assume "n < 10"
  then have "n \<in> set [0..<10]" by simp
  moreover have "[0..<10] = [0, 1, 2, 3, 4, 5, 6, 7, 8, 9]"
    by (simp add: upt_rec)
  ultimately show ?thesis by simp
qed

lemma isDigit_digitChar: "n < 10 \<Longrightarrow> isDigit (digitChar n)"
  using digit_index [of n] by (auto simp: digitChar_def isDigit_def)

lemma digitValue_digitChar: "n < 10 \<Longrightarrow> digitValue (digitChar n) = int n"
  using digit_index [of n] by (auto simp: digitChar_def digitValue_def)

lemma digitValue_less: "digitValue x < digitValue y \<longleftrightarrow> (of_char x :: nat) < of_char y"
  by (simp add: digitValue_def)

lemma digitValue_inj: "digitValue x = digitValue y \<longleftrightarrow> x = y"
  by (simp add: digitValue_def)

lemma digitsOfNat_digits: "list_all isDigit (digitsOfNat n)"
proof (induction n rule: digitsOfNat.induct)
  case (1 n)
  show ?case
  proof (cases "n < 10")
    case True
    then show ?thesis by (subst digitsOfNat.simps) (simp add: isDigit_digitChar)
  next
    case False
    then show ?thesis using 1 by (subst digitsOfNat.simps) (simp add: isDigit_digitChar)
  qed
qed

lemma val_snoc: "digitsValue (s @ [c]) = 10 * digitsValue s + digitValue c"
  by (simp add: digitsValue_def)

lemma val_digitsOfNat: "digitsValue (digitsOfNat n) = int n"
proof (induction n rule: digitsOfNat.induct)
  case (1 n)
  show ?case
  proof (cases "n < 10")
    case True
    then show ?thesis
      by (subst digitsOfNat.simps) (simp add: digitsValue_def digitValue_digitChar)
  next
    case False
    then have "digitsValue (digitsOfNat (n div 10)) = int (n div 10)" using 1 by simp
    then have "digitsValue (digitsOfNat n) = 10 * int (n div 10) + int (n mod 10)"
      using False by (subst digitsOfNat.simps) (simp add: val_snoc digitValue_digitChar)
    also have "\<dots> = int n" by (simp add: zdiv_int zmod_int)
    finally show ?thesis .
  qed
qed

lemma length_digitsOfNat_pos: "0 < length (digitsOfNat n)"
  by (subst digitsOfNat.simps) simp

lemma length_digitsOfNat_le: "0 < k \<Longrightarrow> n < 10 ^ k \<Longrightarrow> length (digitsOfNat n) \<le> k"
proof (induction n arbitrary: k rule: digitsOfNat.induct)
  case (1 n)
  show ?case
  proof (cases "n < 10")
    case True
    then show ?thesis using 1(2) by (subst digitsOfNat.simps) simp
  next
    case False
    then have k: "1 < k" using 1(2,3) by (cases "k = 1") auto
    then obtain j where j: "k = Suc j" "0 < j" by (cases k) auto
    have "n div 10 < 10 ^ j" using 1(3) j by (simp add: less_mult_imp_div_less mult.commute)
    then have "length (digitsOfNat (n div 10)) \<le> j" using 1(1) [OF False j(2)] by simp
    then show ?thesis using False j by (subst digitsOfNat.simps) simp
  qed
qed

lemma length_digitsOfNat_ge: "10 ^ k \<le> n \<Longrightarrow> k < length (digitsOfNat n)"
proof (induction n arbitrary: k rule: digitsOfNat.induct)
  case (1 n)
  show ?case
  proof (cases "n < 10")
    case True
    have "n < 10 * 10 ^ j" for j :: nat
    proof -
      have "(1::nat) \<le> 10 ^ j" by simp
      then have "(10::nat) * 1 \<le> 10 * 10 ^ j" by (rule mult_le_mono2)
      then show ?thesis using True by linarith
    qed
    then have "k = 0" using 1(2) by (cases k) (auto simp: not_le [symmetric])
    then show ?thesis using length_digitsOfNat_pos [of n] by simp
  next
    case False
    show ?thesis
    proof (cases k)
      case 0
      then show ?thesis using length_digitsOfNat_pos [of n] by simp
    next
      case (Suc j)
      then have "10 ^ j \<le> n div 10" using 1(2) by (simp add: less_eq_div_iff_mult_less_eq mult.commute)
      then have "j < length (digitsOfNat (n div 10))" using 1(1) [OF False] by simp
      then show ?thesis using False Suc by (subst digitsOfNat.simps) simp
    qed
  qed
qed

lemma foldl_digits_acc:
  "foldl (\<lambda>a c. 10 * a + digitValue c) a s = a * 10 ^ length s + digitsValue s"
proof (induction s arbitrary: a)
  case Nil
  show ?case by (simp add: digitsValue_def)
next
  case (Cons x xs)
  have "foldl (\<lambda>a c. 10 * a + digitValue c) a (x # xs)
      = (10 * a + digitValue x) * 10 ^ length xs + digitsValue xs"
    using Cons [of "10 * a + digitValue x"] by simp
  moreover have "digitsValue (x # xs) = digitValue x * 10 ^ length xs + digitsValue xs"
    using Cons [of "digitValue x"] by (simp add: digitsValue_def)
  ultimately show ?case by (simp add: algebra_simps)
qed

lemma val_Cons: "digitsValue (x # xs) = digitValue x * 10 ^ length xs + digitsValue xs"
  using foldl_digits_acc [of "digitValue x" xs] by (simp add: digitsValue_def)

lemma val_bounds: "list_all isDigit s \<Longrightarrow> 0 \<le> digitsValue s \<and> digitsValue s < 10 ^ length s"
proof (induction s)
  case Nil
  show ?case by (simp add: digitsValue_def)
next
  case (Cons x xs)
  then have d: "0 \<le> digitValue x" "digitValue x \<le> 9"
    using isDigit_value [of x] by simp_all
  define P :: int where "P = 10 ^ length xs"
  have ih: "0 \<le> digitsValue xs" "digitsValue xs < P" using Cons by (simp_all add: P_def)
  have p: "0 < P" by (simp add: P_def)
  have "digitValue x * P \<le> 9 * P"
    using d(2) p by (intro mult_right_mono) simp_all
  moreover have "0 \<le> digitValue x * P"
    using d(1) p by simp
  moreover have "digitsValue (x # xs) = digitValue x * P + digitsValue xs"
    by (simp add: val_Cons P_def)
  moreover have "(10::int) ^ length (x # xs) = 10 * P"
    by (simp add: P_def)
  ultimately show ?case using ih by linarith
qed

lemma stringLess_val:
  "length xs = length ys \<Longrightarrow> list_all isDigit xs \<Longrightarrow> list_all isDigit ys \<Longrightarrow>
     stringLess xs ys \<longleftrightarrow> digitsValue xs < digitsValue ys"
proof (induction xs ys rule: list_induct2)
  case Nil
  show ?case by (simp add: digitsValue_def)
next
  case (Cons x xs y ys)
  define P :: int where "P = 10 ^ length xs"
  have len: "length ys = length xs" using Cons by simp
  have bx: "0 \<le> digitsValue xs" "digitsValue xs < P"
    using val_bounds [of xs] Cons.prems by (simp_all add: P_def)
  have by': "0 \<le> digitsValue ys" "digitsValue ys < P"
    using val_bounds [of ys] Cons.prems len by (simp_all add: P_def)
  have vx: "digitsValue (x # xs) = digitValue x * P + digitsValue xs" by (simp add: val_Cons P_def)
  have vy: "digitsValue (y # ys) = digitValue y * P + digitsValue ys" by (simp add: val_Cons P_def len)
  show ?case
  proof (cases "x = y")
    case True
    then show ?thesis using Cons vx vy by simp
  next
    case False
    then have ne: "digitValue x \<noteq> digitValue y" by (simp add: digitValue_inj)
    show ?thesis
    proof (cases "digitValue x < digitValue y")
      case True
      then have "digitValue x + 1 \<le> digitValue y" by simp
      then have "(digitValue x + 1) * P \<le> digitValue y * P"
        using bx by (intro mult_right_mono) simp_all
      then have "digitsValue (x # xs) < digitsValue (y # ys)"
        using bx by' vx vy by (simp add: algebra_simps)
      then show ?thesis using True False by (simp add: digitValue_less)
    next
      case gt: False
      then have "digitValue y + 1 \<le> digitValue x" using ne by simp
      then have "(digitValue y + 1) * P \<le> digitValue x * P"
        using bx by (intro mult_right_mono) simp_all
      then have "\<not> digitsValue (x # xs) < digitsValue (y # ys)"
        using bx by' vx vy by (simp add: algebra_simps)
      then show ?thesis using gt False by (simp add: digitValue_less)
    qed
  qed
qed

lemma val_zeros: "digitsValue (replicate k CHR ''0'' @ s) = digitsValue s"
proof (induction k)
  case 0
  show ?case by simp
next
  case (Suc k)
  have "digitsValue (CHR ''0'' # (replicate k CHR ''0'' @ s)) = digitsValue (replicate k CHR ''0'' @ s)"
    by (simp add: val_Cons digitValue_def)
  then show ?case using Suc by simp
qed

lemma parseInt_digits:
  assumes "s \<noteq> []" and "list_all isDigit s"
  shows "parseInt s = Some (digitsValue s)"
proof -
  obtain x xs where s: "s = x # xs" using assms(1) by (cases s) auto
  have x: "\<not> isWhiteSpace x" "x \<noteq> CHR ''-''" "x \<noteq> CHR ''+''"
    using isDigit_not_special [of x] assms(2) s by simp_all
  have t: "takeWhile isDigit s = s"
    using assms(2) by (simp add: list_all_iff)
  have d: "dropWhile isWhiteSpace s = s" using s x by simp
  show ?thesis
    unfolding parseInt_def d Let_def
    using s x t by (simp add: digitsValue_def)
qed

lemma splitOn_none: "c \<notin> set xs \<Longrightarrow> splitOn c xs = [xs]"
  by (induction xs) auto

lemma splitOn_append: "c \<notin> set xs \<Longrightarrow> splitOn c (xs @ c # ys) = xs # splitOn c ys"
  by (induction xs) auto

lemma isDigit_not_dash: "list_all isDigit s \<Longrightarrow> CHR ''-'' \<notin> set s"
  using isDigit_not_special by (auto simp: list_all_iff)

lemma extractSequenceNumber_wellformed:
  assumes "list_all isDigit ds" and "list_all isDigit ss" and "ss \<noteq> []"
  shows "extractSequenceNumber (''CP-'' @ ds @ ''-'' @ ss) = digitsValue ss"
proof -
  have "splitOn CHR ''-'' (''CP-'' @ ds @ ''-'' @ ss)
      = ''CP'' # splitOn CHR ''-'' (ds @ CHR ''-'' # ss)"
    using splitOn_append [of "CHR ''-''" "''CP''" "ds @ ''-'' @ ss"] by simp
  also have "\<dots> = ''CP'' # ds # splitOn CHR ''-'' ss"
    using splitOn_append [of "CHR ''-''" ds ss] isDigit_not_dash [OF assms(1)] by simp
  also have "\<dots> = [''CP'', ds, ss]"
    using splitOn_none [of "CHR ''-''" ss] isDigit_not_dash [OF assms(2)] by simp
  finally have parts: "splitOn CHR ''-'' (''CP-'' @ ds @ ''-'' @ ss) = [''CP'', ds, ss]" .
  show ?thesis
    unfolding extractSequenceNumber_def parts Let_def
    by (simp add: parseInt_digits [OF assms(3) assms(2)])
qed

lemma stringLess_prefix: "stringLess (p @ x) (p @ y) = stringLess x y"
  by (induction p) auto

lemma startsWith_append: "startsWith (p @ x) p"
  by (simp add: startsWith_def)

lemma startsWith_iff: "startsWith s p \<longleftrightarrow> (\<exists>x. s = p @ x)"
  unfolding startsWith_def
  by (metis append_eq_conv_conj append_take_drop_id)


lemma isDigit_zero: "isDigit CHR ''0''"
  by (simp add: isDigit_def)

lemma padStart_digits:
  "list_all isDigit s \<Longrightarrow> list_all isDigit (padStart n CHR ''0'' s)"
  by (auto simp: padStart_def list_all_iff isDigit_zero)

lemma padStart_length: "length s \<le> n \<Longrightarrow> length (padStart n c s) = n"
  by (simp add: padStart_def)

lemma padStart_val: "digitsValue (padStart n CHR ''0'' s) = digitsValue s"
  by (simp add: padStart_def val_zeros)

lemma numberToString_nonneg: "0 \<le> k \<Longrightarrow> numberToString k = digitsOfNat (nat k)"
  by (simp add: numberToString_def)

lemma sequenceString_digits: "0 \<le> k \<Longrightarrow> list_all isDigit (sequenceString k)"
  by (simp add: sequenceString_def numberToString_nonneg padStart_digits digitsOfNat_digits)

lemma sequenceString_val: "0 \<le> k \<Longrightarrow> digitsValue (sequenceString k) = k"
  by (simp add: sequenceString_def numberToString_nonneg padStart_val val_digitsOfNat)

lemma sequenceString_nonempty: "sequenceString k \<noteq> []"
proof -
  have "0 < length (numberToString k)"
    using length_digitsOfNat_pos by (simp add: numberToString_def)
  then show ?thesis by (auto simp: sequenceString_def padStart_def)
qed

lemma sequenceString_length: "0 \<le> k \<Longrightarrow> k \<le> 9999 \<Longrightarrow> length (sequenceString k) = 4"
proof -
  assume k: "0 \<le> k" "k \<le> 9999"
  then have "nat k < 10 ^ 4" by simp
  then have "length (digitsOfNat (nat k)) \<le> 4"
    by (intro length_digitsOfNat_le) simp_all
  then show ?thesis
    using k by (simp add: sequenceString_def numberToString_nonneg padStart_length)
qed

lemma sequenceString_less:
  assumes "0 \<le> a" "a \<le> 9999" "0 \<le> b" "b \<le> 9999"
  shows "stringLess (sequenceString a) (sequenceString b) \<longleftrightarrow> a < b"
  using stringLess_val [of "sequenceString a" "sequenceString b"] assms
  by (simp add: sequenceString_length sequenceString_digits sequenceString_val)

lemma parseInt_sequenceString: "0 \<le> k \<Longrightarrow> parseInt (sequenceString k) = Some k"
  using parseInt_digits [OF sequenceString_nonempty, of k]
  by (simp add: sequenceString_digits sequenceString_val)

subsection \<open>The date segment\<close>

lemma two_digits:
  assumes "0 \<le> i" "i \<le> 99"
  shows "length (padStart 2 CHR ''0'' (numberToString i)) = 2
    \<and> list_all isDigit (padStart 2 CHR ''0'' (numberToString i))"
proof -
  have "nat i < 10 ^ 2" using assms by simp
  then have "length (digitsOfNat (nat i)) \<le> 2"
    by (intro length_digitsOfNat_le) simp_all
  then show ?thesis
    using assms
    by (simp add: numberToString_nonneg padStart_length padStart_digits digitsOfNat_digits)
qed

lemma four_digits:
  assumes "1000 \<le> y" "y \<le> 9999"
  shows "length (numberToString y) = 4 \<and> list_all isDigit (numberToString y)"
proof -
  have "nat y < 10 ^ 4" using assms by simp
  then have le: "length (digitsOfNat (nat y)) \<le> 4"
    by (intro length_digitsOfNat_le) simp_all
  have "10 ^ 3 \<le> nat y" using assms by simp
  then have "3 < length (digitsOfNat (nat y))"
    by (rule length_digitsOfNat_ge)
  then show ?thesis
    using le assms by (simp add: numberToString_nonneg digitsOfNat_digits)
qed

lemma formatDate_digits:
  assumes "1000 \<le> getFullYear tz today" "getFullYear tz today \<le> 9999"
  shows "length (formatDateForCertificate tz today) = 8
    \<and> list_all isDigit (formatDateForCertificate tz today)"
proof -
  have m: "0 \<le> getMonth tz today + 1" "getMonth tz today + 1 \<le> 99"
    using MonthFromTime_range [of "LocalTime tz today"] by (simp_all add: getMonth_def)
  have d: "0 \<le> getDate tz today" "getDate tz today \<le> 99"
    using DateFromTime_range [of "LocalTime tz today"] by (simp_all add: getDate_def)
  show ?thesis
    using four_digits [OF assms] two_digits [OF m] two_digits [OF d]
    by (simp add: formatDateForCertificate_def Let_def)
qed

lemma extractSequenceNumber_prefix:
  assumes "list_all isDigit (formatDateForCertificate tz today)" and "0 \<le> k"
  shows "extractSequenceNumber (certificatePrefix tz today @ sequenceString k) = k"
  using extractSequenceNumber_wellformed [OF assms(1) sequenceString_digits [OF assms(2)]
      sequenceString_nonempty]
  by (simp add: certificatePrefix_def sequenceString_val [OF assms(2)])

subsection \<open>The greatest certificate number\<close>

lemma fold_greatest:
  fixes g :: "'a \<Rightarrow> int"
  assumes "\<forall>a \<in> set (x # xs). \<forall>b \<in> set (x # xs).
             stringLess (column a) (column b) \<longleftrightarrow> g a < g b"
  shows "fold (\<lambda>row best. if stringLess (column best) (column row) then row else best) xs x
           \<in> set (x # xs)
       \<and> (\<forall>c \<in> set (x # xs).
            g c \<le> g (fold (\<lambda>row best. if stringLess (column best) (column row) then row
                               else best) xs x))"
  using assms
proof (induction xs arbitrary: x)
  case Nil
  show ?case by simp
next
  case (Cons a xs)
  let ?f = "\<lambda>row best. if stringLess (column best) (column row) then row else best"
  let ?x' = "?f a x"
  have x': "?x' = (if g x < g a then a else x)"
    using Cons.prems by simp
  have sub: "set (?x' # xs) \<subseteq> set (x # a # xs)" by auto
  have "\<forall>a \<in> set (?x' # xs). \<forall>b \<in> set (?x' # xs).
          stringLess (column a) (column b) \<longleftrightarrow> g a < g b"
    using Cons.prems sub by (meson subsetD)
  from Cons.IH [OF this]
  have r: "fold ?f xs ?x' \<in> set (?x' # xs)"
    and g: "\<forall>c \<in> set (?x' # xs). g c \<le> g (fold ?f xs ?x')"
    by simp_all
  have fx: "fold ?f (a # xs) x = fold ?f xs ?x'" by simp
  have "g x \<le> g ?x'" "g a \<le> g ?x'" using x' by auto
  moreover have "g ?x' \<le> g (fold ?f xs ?x')" using g by simp
  ultimately have "g x \<le> g (fold ?f xs ?x')" "g a \<le> g (fold ?f xs ?x')" by linarith+
  then show ?case
    unfolding fx using r g sub by auto
qed

subsection \<open>Numbering certificates\<close>

lemma generateCertificateNumber_unfold:
  "generateCertificateNumber tz today prisma =
     (case findFirstDesc (\<lambda>c. startsWith (certificateNumber c) (certificatePrefix tz today))
             certificateNumber (certificate prisma) of
        None \<Rightarrow> certificatePrefix tz today @ sequenceString 1
      | Some c \<Rightarrow>
          certificatePrefix tz today
            @ sequenceString (extractSequenceNumber (certificateNumber c) + 1))"
  by (simp add: generateCertificateNumber_def certificatePrefix_def sequenceString_def Let_def
      split: option.splits)

lemma issuedToday_rows:
  assumes "issuedToday tz today prisma m"
    and "c \<in> set (certificate prisma)"
    and "startsWith (certificateNumber (snd c)) (certificatePrefix tz today)"
  shows "\<exists>k. 1 \<le> k \<and> k \<le> m
    \<and> certificateNumber (snd c) = certificatePrefix tz today @ sequenceString k"
proof -
  have "certificateNumber (snd c)
      \<in> set (map (\<lambda>k. certificatePrefix tz today @ sequenceString k) [1..m])"
    using assms unfolding issuedToday_def by blast
  then obtain k where "k \<in> set [1..m]"
    "certificateNumber (snd c) = certificatePrefix tz today @ sequenceString k"
    by auto
  then show ?thesis by auto
qed

lemma issuedToday_none:
  "issuedToday tz today prisma 0 \<longleftrightarrow>
     (\<forall>c \<in> set (certificate prisma).
        \<not> startsWith (certificateNumber (snd c)) (certificatePrefix tz today))"
  by (auto simp: issuedToday_def)

lemma generateCertificateNumber_value:
  assumes digits: "list_all isDigit (formatDateForCertificate tz today)"
    and issued: "issuedToday tz today prisma m" and m: "0 \<le> m" "m \<le> 9998"
  shows "generateCertificateNumber tz today prisma
     = certificatePrefix tz today @ sequenceString (m + 1)"
proof -
  let ?pfx = "certificatePrefix tz today"
  let ?P = "\<lambda>c. startsWith (certificateNumber c) ?pfx"
  let ?rows = "filter ?P (map snd (certificate prisma))"
  let ?g = "\<lambda>c. extractSequenceNumber (certificateNumber c)"
  have wf: "\<exists>k. 1 \<le> k \<and> k \<le> m \<and> certificateNumber c = ?pfx @ sequenceString k"
    if "c \<in> set ?rows" for c :: Certificate
    using that issuedToday_rows [OF issued] by auto
  have gk: "?g c = k" if "certificateNumber c = ?pfx @ sequenceString k" "1 \<le> k" for c :: Certificate and k
    using that extractSequenceNumber_prefix [OF digits, of k] by simp
  have cmp: "stringLess (certificateNumber a) (certificateNumber b) \<longleftrightarrow> ?g a < ?g b"
    if a: "a \<in> set ?rows" and b: "b \<in> set ?rows" for a b :: Certificate
  proof -
    obtain ka where ka: "1 \<le> ka" "ka \<le> m" "certificateNumber a = ?pfx @ sequenceString ka"
      using wf [OF a] by blast
    obtain kb where kb: "1 \<le> kb" "kb \<le> m" "certificateNumber b = ?pfx @ sequenceString kb"
      using wf [OF b] by blast
    have "stringLess (certificateNumber a) (certificateNumber b) \<longleftrightarrow> ka < kb"
      using ka kb m by (simp add: stringLess_prefix sequenceString_less)
    then show ?thesis using gk [OF ka(3) ka(1)] gk [OF kb(3) kb(1)] by simp
  qed
  show ?thesis
  proof (cases ?rows)
    case Nil
    have "m = 0"
    proof (rule ccontr)
      assume "m \<noteq> 0"
      then obtain c where c: "c \<in> set (certificate prisma)"
        "certificateNumber (snd c) = ?pfx @ sequenceString m"
        using issued unfolding issuedToday_def by blast
      then have "snd c \<in> set ?rows" by (simp add: startsWith_append)
      then show False using Nil by simp
    qed
    then show ?thesis
      using Nil by (simp add: generateCertificateNumber_unfold findFirstDesc_def)
  next
    case (Cons x xs)
    let ?f = "\<lambda>row best. if stringLess (certificateNumber best) (certificateNumber row)
                 then row else best"
    let ?r = "fold ?f xs x"
    have all: "\<forall>a \<in> set (x # xs). \<forall>b \<in> set (x # xs).
        stringLess (certificateNumber a) (certificateNumber b) \<longleftrightarrow> ?g a < ?g b"
      using cmp Cons by simp
    have r: "?r \<in> set (x # xs)" and top: "\<forall>c \<in> set (x # xs). ?g c \<le> ?g ?r"
      using fold_greatest [of x xs certificateNumber ?g, OF all] by simp_all
    have rin: "?r \<in> set ?rows" using r Cons by simp
    obtain kr where kr: "1 \<le> kr" "kr \<le> m" "certificateNumber ?r = ?pfx @ sequenceString kr"
      using wf [OF rin] by blast
    have gr: "?g ?r = kr" using gk [OF kr(3) kr(1)] .
    have "m \<noteq> 0" using kr by linarith
    then obtain c where c: "c \<in> set (certificate prisma)"
      "certificateNumber (snd c) = ?pfx @ sequenceString m"
      using issued unfolding issuedToday_def by blast
    have m1: "1 \<le> m" using kr by linarith
    have "snd c \<in> set ?rows" using c by (simp add: startsWith_append)
    then have "snd c \<in> set (x # xs)" using Cons by simp
    then have "?g (snd c) \<le> ?g ?r" using top by blast
    then have "m \<le> kr" using gk [OF c(2) m1] gr by simp
    then have "?g ?r = m" using kr gr by simp
    then show ?thesis
      using Cons by (simp add: generateCertificateNumber_unfold findFirstDesc_def)
  qed
qed

text \<open>
  Claim C7, as amended. For a day whose year has four digits, when the certificate
  numbers of the day on file are well formed with sequence numbers from 1 to \<open>m\<close>, \<open>m\<close>
  among them (none of the day when \<open>m = 0\<close>), and \<open>m\<close> is at most 9998:
  \<open>generateCertificateNumber\<close> returns \<open>CP-\<close>, the eight digits of the day, \<open>-\<close>, and
  \<open>m + 1\<close> in four digits (so \<open>0001\<close> when there is none); that number differs from
  every number on file and is greater than every number of the day; and once a
  certificate with it is stored, the numbers of the day are those from 1 to \<open>m + 1\<close>, so
  numbers allocated one after the other on a day are consecutive. Nothing is claimed
  for calls that overlap.
\<close>

theorem generateCertificateNumber_next:
  assumes year: "1000 \<le> getFullYear tz today" "getFullYear tz today \<le> 9999"
    and issued: "issuedToday tz today prisma m" and m: "0 \<le> m" "m \<le> 9998"
  shows "generateCertificateNumber tz today prisma
       = ''CP-'' @ formatDateForCertificate tz today @ ''-'' @ sequenceString (m + 1)
     \<and> length (formatDateForCertificate tz today) = 8
     \<and> list_all isDigit (formatDateForCertificate tz today)
     \<and> length (sequenceString (m + 1)) = 4
     \<and> list_all isDigit (sequenceString (m + 1))
     \<and> parseInt (sequenceString (m + 1)) = Some (m + 1)
     \<and> (\<forall>c \<in> set (certificate prisma).
           certificateNumber (snd c) \<noteq> generateCertificateNumber tz today prisma)
     \<and> (\<forall>c \<in> set (certificate prisma).
           startsWith (certificateNumber (snd c)) (certificatePrefix tz today) \<longrightarrow>
           stringLess (certificateNumber (snd c)) (generateCertificateNumber tz today prisma))
     \<and> (certificateNumber cert = generateCertificateNumber tz today prisma \<longrightarrow>
           issuedToday tz today (afterCertificateCreate newId cert prisma) (m + 1))"
proof -
  let ?pfx = "certificatePrefix tz today"
  have fd: "length (formatDateForCertificate tz today) = 8"
    "list_all isDigit (formatDateForCertificate tz today)"
    using formatDate_digits [OF year] by simp_all
  have gen: "generateCertificateNumber tz today prisma = ?pfx @ sequenceString (m + 1)"
    using generateCertificateNumber_value [OF fd(2) issued m] .
  have m1: "0 \<le> m + 1" "m + 1 \<le> 9999" using m by simp_all
  have below: "stringLess (certificateNumber (snd c)) (?pfx @ sequenceString (m + 1))"
    if c: "c \<in> set (certificate prisma)" "startsWith (certificateNumber (snd c)) ?pfx" for c
  proof -
    obtain k where k: "1 \<le> k" "k \<le> m" "certificateNumber (snd c) = ?pfx @ sequenceString k"
      using issuedToday_rows [OF issued c] by blast
    then show ?thesis using m by (simp add: stringLess_prefix sequenceString_less)
  qed
  have irrefl: "\<not> stringLess s s" for s by (induction s) auto
  have fresh: "certificateNumber (snd c) \<noteq> ?pfx @ sequenceString (m + 1)"
    if "c \<in> set (certificate prisma)" for c
  proof
    assume e: "certificateNumber (snd c) = ?pfx @ sequenceString (m + 1)"
    then have "startsWith (certificateNumber (snd c)) ?pfx" by (simp add: startsWith_append)
    from below [OF that this] show False using e irrefl by simp
  qed
  have step: "issuedToday tz today (afterCertificateCreate newId cert prisma) (m + 1)"
    if cn: "certificateNumber cert = ?pfx @ sequenceString (m + 1)"
  proof -
    have tbl: "set (certificate (afterCertificateCreate newId cert prisma))
        = insert (newId, cert) (set (certificate prisma))"
      by (simp add: afterCertificateCreate_def createRow_def)
    have up: "[1..m + 1] = [1..m] @ [m + 1]"
      using m by (simp add: upto_rec2)
    have old: "certificateNumber (snd c)
        \<in> set (map (\<lambda>k. ?pfx @ sequenceString k) [1..m + 1])"
      if c: "c \<in> set (certificate prisma)" "startsWith (certificateNumber (snd c)) ?pfx" for c
    proof -
      obtain k where k: "1 \<le> k" "k \<le> m" "certificateNumber (snd c) = ?pfx @ sequenceString k"
        using issuedToday_rows [OF issued c] by blast
      then show ?thesis by auto
    qed
    have new: "certificateNumber cert \<in> set (map (\<lambda>k. ?pfx @ sequenceString k) [1..m + 1])"
      using cn m by auto
    show ?thesis
      unfolding issuedToday_def tbl using old new cn by auto
  qed
  show ?thesis
    using fd gen m1 below fresh step
    by (simp add: certificatePrefix_def sequenceString_length sequenceString_digits
        parseInt_sequenceString)
qed

subsection \<open>Generating a certificate\<close>

lemma calculateValidUntil_real_estate:
  "calculateValidUntil tz real_estate t = TimeClip (UTC tz (LocalTime tz t + 90 * msPerDay))"
  by (simp add: calculateValidUntil_def REAL_ESTATE_VALIDITY_DAYS_def setDate_getDate_add)

lemma calculateValidUntil_residential:
  "calculateValidUntil tz residential t = setFullYear tz t (getFullYear tz t + 2)"
  by (simp add: calculateValidUntil_def RESIDENTIAL_VALIDITY_YEARS_def)

lemma findUnique_createRow_new:
  "findUnique tbl k = None \<Longrightarrow> findUnique (createRow tbl k v) k = Some v"
  by (simp add: findUnique_def createRow_def map_add_def)

lemma newCertificate_fields:
  "resultId (newCertificate tz publicUrl now newId body home prisma) = bodyResultId body"
  "certStatus (newCertificate tz publicUrl now newId body home prisma) = valid"
  "validFrom (newCertificate tz publicUrl now newId body home prisma)
     = (case bodyValidFrom body of Some d \<Rightarrow> d | None \<Rightarrow> now)"
  "validUntil (newCertificate tz publicUrl now newId body home prisma)
     = calculateValidUntil tz (bodyCertType body)
         (case bodyValidFrom body of Some d \<Rightarrow> d | None \<Rightarrow> now)"
  by (simp_all add: newCertificate_def Let_def)

lemma certified_after_step:
  assumes "certifiedResultsImmutable prisma"
  shows "certifiedResultsImmutable
     (prisma\<lparr>certificate := createRow (certificate prisma) k c,
             result := updateRow (result prisma) (resultId c) (\<lambda>r. r\<lparr>isImmutable := True\<rparr>)\<rparr>)"
  using assms
  by (auto simp: certifiedResultsImmutable_def createRow_def findUnique_updateRow
      split: option.splits)

lemma createCertificate_keeps_certified:
  assumes "certifiedResultsImmutable prisma"
  shows "certifiedResultsImmutable (snd (createCertificate tz publicUrl now newId body prisma))"
proof -
  have "certifiedResultsImmutable
     (prisma\<lparr>certificate := createRow (certificate prisma) newId
                (newCertificate tz publicUrl now newId body home prisma),
             result := updateRow (result prisma) (bodyResultId body)
                (\<lambda>r. r\<lparr>isImmutable := True\<rparr>)\<rparr>)" for home
    using certified_after_step [OF assms, where k = newId
        and c = "newCertificate tz publicUrl now newId body home prisma"]
    by (simp add: newCertificate_fields)
  then show ?thesis
    using assms by (simp add: createCertificate_def Let_def split: option.splits)
qed

text \<open>
  Claim C5. When the result exists, no certificate references it and the type is the one
  of the kit type, certificate generation returns the certificate it stored, with status
  \<open>valid\<close>, \<open>validFrom\<close> the date of the request (or the time of the call), and \<open>validUntil\<close>
  the value of \<open>calculateValidUntil\<close> at the type and \<open>validFrom\<close>. For a real-estate
  certificate that is the instant that the zone gives for the local time of \<open>validFrom\<close>
  moved on by 90 days of 24 hours (\<open>validFrom\<close> plus 90 times 24 hours where the zone has
  the same offset from UTC at both ends); for a residential one it is the instant that
  the zone gives for the same day of the month and time of day two years later in local
  time (1 March when \<open>validFrom\<close> is 29 February). In the database after the call the
  certificate is stored and the result is immutable; the call is one step, and if every
  certificate belonged to an immutable result before it, so it is after it.
\<close>

theorem createCertificate_valid_and_immutable:
  assumes res: "findUnique (result prisma) (bodyResultId body) = Some res"
    and ses: "findUnique (testSession prisma) (testSessionId res) = Some session"
    and nocert: "findUniqueWhere (\<lambda>c. resultId c = bodyResultId body) (certificate prisma)
                   = None"
    and ctype: "bodyCertType body = expectedCertType (kitType session)"
    and fresh: "findUnique (certificate prisma) newId = None"
  shows "\<exists>cert.
      fst (createCertificate tz publicUrl now newId body prisma) = Inr cert
      \<and> findUnique (certificate (snd (createCertificate tz publicUrl now newId body prisma)))
            newId
          = Some cert
      \<and> findUnique (result (snd (createCertificate tz publicUrl now newId body prisma)))
            (bodyResultId body)
          = Some (res\<lparr>isImmutable := True\<rparr>)
      \<and> resultId cert = bodyResultId body
      \<and> certStatus cert = valid
      \<and> validFrom cert = (case bodyValidFrom body of Some d \<Rightarrow> d | None \<Rightarrow> now)
      \<and> validUntil cert = calculateValidUntil tz (bodyCertType body) (validFrom cert)
      \<and> (bodyCertType body = real_estate \<longrightarrow>
            validUntil cert
              = TimeClip (UTC tz (LocalTime tz (validFrom cert) + 90 * msPerDay))
            \<and> (offsetOfLocal tz (LocalTime tz (validFrom cert) + 90 * msPerDay)
                  = offsetAt tz (validFrom cert) \<longrightarrow>
                validUntil cert = TimeClip (validFrom cert + 90 * msPerDay)))
      \<and> (bodyCertType body = residential \<longrightarrow>
            (\<exists>x. validUntil cert = TimeClip (UTC tz x)
               \<and> YearFromTime x = getFullYear tz (validFrom cert) + 2
               \<and> TimeWithinDay x = TimeWithinDay (LocalTime tz (validFrom cert))
               \<and> (if getMonth tz (validFrom cert) = 1 \<and> getDate tz (validFrom cert) = 29
                   then MonthFromTime x = 2 \<and> DateFromTime x = 1
                   else MonthFromTime x = getMonth tz (validFrom cert)
                      \<and> DateFromTime x = getDate tz (validFrom cert))))
      \<and> (certifiedResultsImmutable prisma \<longrightarrow>
            certifiedResultsImmutable
              (snd (createCertificate tz publicUrl now newId body prisma)))"
proof -
  define cert where "cert = newCertificate tz publicUrl now newId body (homeId session) prisma"
  define vf where "vf = validFrom cert"
  define after where "after = snd (createCertificate tz publicUrl now newId body prisma)"
  have run: "createCertificate tz publicUrl now newId body prisma
      = (Inr cert,
         prisma\<lparr>certificate := createRow (certificate prisma) newId cert,
                result := updateRow (result prisma) (bodyResultId body)
                  (\<lambda>r. r\<lparr>isImmutable := True\<rparr>)\<rparr>)"
    using res ses nocert ctype by (simp add: createCertificate_def cert_def Let_def)
  have c0: "fst (createCertificate tz publicUrl now newId body prisma) = Inr cert"
    by (simp add: run)
  have c1: "findUnique (certificate after) newId = Some cert"
    using fresh by (simp add: after_def run findUnique_createRow_new)
  have c2: "findUnique (result after) (bodyResultId body) = Some (res\<lparr>isImmutable := True\<rparr>)"
    using res by (simp add: after_def run findUnique_updateRow)
  have f: "resultId cert = bodyResultId body" "certStatus cert = valid"
    "validFrom cert = (case bodyValidFrom body of Some d \<Rightarrow> d | None \<Rightarrow> now)"
    by (simp_all add: cert_def newCertificate_fields)
  have vu: "validUntil cert = calculateValidUntil tz (bodyCertType body) vf"
    by (simp add: vf_def cert_def newCertificate_fields)
  have re: "bodyCertType body = real_estate \<longrightarrow>
      validUntil cert = TimeClip (UTC tz (LocalTime tz vf + 90 * msPerDay))
      \<and> (offsetOfLocal tz (LocalTime tz vf + 90 * msPerDay) = offsetAt tz vf \<longrightarrow>
            validUntil cert = TimeClip (vf + 90 * msPerDay))"
    by (simp add: vu calculateValidUntil_real_estate UTC_same_offset)
  have rs: "bodyCertType body = residential \<longrightarrow>
      (\<exists>x. validUntil cert = TimeClip (UTC tz x)
         \<and> YearFromTime x = getFullYear tz vf + 2
         \<and> TimeWithinDay x = TimeWithinDay (LocalTime tz vf)
         \<and> (if getMonth tz vf = 1 \<and> getDate tz vf = 29
             then MonthFromTime x = 2 \<and> DateFromTime x = 1
             else MonthFromTime x = getMonth tz vf \<and> DateFromTime x = getDate tz vf))"
    using setFullYear_two_years [of tz vf]
    by (simp add: vu calculateValidUntil_residential)
  have inv: "certifiedResultsImmutable prisma \<longrightarrow> certifiedResultsImmutable after"
    unfolding after_def by (simp add: createCertificate_keeps_certified)
  show ?thesis
    using c0 c1 c2 f vu re rs inv unfolding vf_def after_def by blast
qed

subsection \<open>Examples of certificate generation\<close>

lemma replicate_3: "replicate 3 c = [c, c, c]"
  by (simp add: numeral_3_eq_3)

lemma certificatePrefix_example: "certificatePrefix zoneUTC 1772107200000 = ''CP-20260226-''"
  by (simp add: certificatePrefix_def formatDate_example)

lemma sequenceString_examples:
  "sequenceString 1 = ''0001''" "sequenceString 2 = ''0002''"
  "sequenceString 10000 = ''10000''"
  by (simp_all add: sequenceString_def numberToString_def padStart_def digitsOfNat.simps
      digitChar_def replicate_3)

lemma extractSequenceNumber_example: "extractSequenceNumber ''CP-20260226-9999'' = 9999"
  by (simp add: extractSequenceNumber_def parseInt_def isWhiteSpace_def isDigit_def
      digitValue_def Let_def)

lemma generate_empty:
  "generateCertificateNumber zoneUTC 1772107200000 (databaseWithResult False) = ''CP-20260226-0001''"
  by (simp add: generateCertificateNumber_unfold certificatePrefix_example
      sequenceString_examples findFirstDesc_def databaseWithResult_def)

lemma generate_after_9999:
  "generateCertificateNumber zoneUTC 1772107200000
     \<lparr>testSession = [], result = [],
      certificate = [(''certificate-1'', numbered ''CP-20260226-9999'')]\<rparr>
   = ''CP-20260226-10000''"
  by (simp add: generateCertificateNumber_unfold certificatePrefix_example
      sequenceString_examples findFirstDesc_def numbered_def startsWith_def
      extractSequenceNumber_example)

lemma generate_after_10000:
  "generateCertificateNumber zoneUTC 1772107200000
     \<lparr>testSession = [], result = [],
      certificate = [(''certificate-1'', numbered ''CP-20260226-9999''),
                     (''certificate-2'', numbered ''CP-20260226-10000'')]\<rparr>
   = ''CP-20260226-10000''"
  by (simp add: generateCertificateNumber_unfold certificatePrefix_example
      sequenceString_examples findFirstDesc_def numbered_def startsWith_def
      extractSequenceNumber_example)

text \<open>
  The claim as stated fails. Two requests that both read the table before either
  certificate is stored get the same number, and both certificates carry it. After
  sequence 9999 the number has a five-digit sequence, and the call after that returns
  the same number again, since \<open>CP-20260226-9999\<close> is the greatest string of the day.
\<close>

theorem certificate_number_collisions_counterexample:
  "map (\<lambda>row. certificateNumber (snd row))
     (certificate
       (afterCertificateCreate ''certificate-2''
          (numbered (generateCertificateNumber zoneUTC 1772107200000 (databaseWithResult False)))
          (afterCertificateCreate ''certificate-1''
             (numbered (generateCertificateNumber zoneUTC 1772107200000 (databaseWithResult False)))
             (databaseWithResult False))))
     = [''CP-20260226-0001'', ''CP-20260226-0001'']
   \<and> generateCertificateNumber zoneUTC 1772107200000
       \<lparr>testSession = [], result = [],
        certificate = [(''certificate-1'', numbered ''CP-20260226-9999'')]\<rparr>
     = ''CP-20260226-10000''
   \<and> generateCertificateNumber zoneUTC 1772107200000
       (afterCertificateCreate ''certificate-2'' (numbered ''CP-20260226-10000'')
         \<lparr>testSession = [], result = [],
          certificate = [(''certificate-1'', numbered ''CP-20260226-9999'')]\<rparr>)
     = ''CP-20260226-10000''"
proof -
  have a: "map (\<lambda>row. certificateNumber (snd row))
     (certificate
       (afterCertificateCreate ''certificate-2''
          (numbered (generateCertificateNumber zoneUTC 1772107200000 (databaseWithResult False)))
          (afterCertificateCreate ''certificate-1''
             (numbered (generateCertificateNumber zoneUTC 1772107200000 (databaseWithResult False)))
             (databaseWithResult False))))
     = [''CP-20260226-0001'', ''CP-20260226-0001'']"
    unfolding generate_empty
    by (simp add: afterCertificateCreate_def createRow_def databaseWithResult_def numbered_def)
  have c: "afterCertificateCreate ''certificate-2'' (numbered ''CP-20260226-10000'')
         \<lparr>testSession = [], result = [],
          certificate = [(''certificate-1'', numbered ''CP-20260226-9999'')]\<rparr>
      = \<lparr>testSession = [], result = [],
          certificate = [(''certificate-1'', numbered ''CP-20260226-9999''),
                         (''certificate-2'', numbered ''CP-20260226-10000'')]\<rparr>"
    by (simp add: afterCertificateCreate_def createRow_def)
  show ?thesis
    unfolding c using a generate_after_9999 generate_after_10000 by simp
qed

theorem generateCertificateNumber_next_witness:
  "issuedToday zoneUTC 1772107200000
     \<lparr>testSession = [], result = [],
      certificate = [(''certificate-1'', certificateFor ''result-1'')]\<rparr> 1
   \<and> generateCertificateNumber zoneUTC 1772107200000
       \<lparr>testSession = [], result = [],
        certificate = [(''certificate-1'', certificateFor ''result-1'')]\<rparr>
     = ''CP-20260226-0002''
   \<and> issuedToday zoneUTC 1772107200000 (databaseWithResult False) 0
   \<and> generateCertificateNumber zoneUTC 1772107200000 (databaseWithResult False)
     = ''CP-20260226-0001''"
proof -
  let ?P = "\<lparr>testSession = [], result = [],
      certificate = [(''certificate-1'', certificateFor ''result-1'')]\<rparr>"
  have y: "1000 \<le> getFullYear zoneUTC 1772107200000" "getFullYear zoneUTC 1772107200000 \<le> 9999"
    by (simp_all add: calendar_example)
  have i1: "issuedToday zoneUTC 1772107200000 ?P 1"
    by (simp add: issuedToday_def certificatePrefix_example sequenceString_examples
        certificateFor_def startsWith_def)
  have i0: "issuedToday zoneUTC 1772107200000 (databaseWithResult False) 0"
    by (simp add: issuedToday_def databaseWithResult_def)
  have a: "generateCertificateNumber zoneUTC 1772107200000 ?P = ''CP-20260226-0002''"
    using generateCertificateNumber_next [OF y i1]
    by (simp add: formatDate_example sequenceString_examples)
  have b: "generateCertificateNumber zoneUTC 1772107200000 (databaseWithResult False)
      = ''CP-20260226-0001''"
    using generateCertificateNumber_next [OF y i0]
    by (simp add: formatDate_example sequenceString_examples)
  show ?thesis using i1 i0 a b by simp
qed

lemma setFullYear_example:
  "setFullYear zoneUTC 1772107200000 2028 = ValidDate 1835179200000"
proof -
  have m: "MonthFromTime 1772107200000 = 1" "DateFromTime 1772107200000 = 26"
    using calendar_example(2,3) by (simp_all add: getMonth_def getDate_def LocalTime_zoneUTC)
  have tw: "TimeWithinDay 1772107200000 = 43200000"
    by (simp add: TimeWithinDay_def msPerDay_def)
  have md: "MakeDay 2028 1 26 = 21240"
    by (simp add: MakeDay_def daysBeforeMonth_def leapDays_def DaysInYear_def DayFromYear_def)
  have "MakeDate 21240 43200000 = 1835179200000"
    by (simp add: MakeDate_def msPerDay_def)
  then show ?thesis
    by (simp add: setFullYear_def LocalTime_zoneUTC UTC_zoneUTC m tw md TimeClip_def)
qed

lemma validUntil_examples:
  "calculateValidUntil zoneUTC residential 1772107200000 = ValidDate 1835179200000"
  "calculateValidUntil zoneToronto real_estate 1772107200000 = ValidDate 1779879600000"
  "1779879600000 = 1772107200000 + 90 * msPerDay - 3600000"
proof -
  show "calculateValidUntil zoneUTC residential 1772107200000 = ValidDate 1835179200000"
    by (simp add: calculateValidUntil_residential calendar_example(1) setFullYear_example)
  have "LocalTime zoneToronto 1772107200000 + 90 * msPerDay = 1779865200000"
    by (simp add: LocalTime_def zoneToronto_def msPerDay_def)
  moreover have "UTC zoneToronto 1779865200000 = 1779879600000"
    by (simp add: UTC_def zoneToronto_def)
  ultimately show
    "calculateValidUntil zoneToronto real_estate 1772107200000 = ValidDate 1779879600000"
    by (simp add: calculateValidUntil_real_estate TimeClip_def)
  show "1779879600000 = 1772107200000 + 90 * msPerDay - 3600000"
    by (simp add: msPerDay_def)
qed

lemma certificateRequest_checks:
  "findUnique (result (databaseWithResult False)) (bodyResultId certificateRequest)
      = Some (storedResult False)"
  "findUnique (testSession (databaseWithResult False)) (testSessionId (storedResult False))
      = Some (sessionIn complete)"
  "findUniqueWhere (\<lambda>c. resultId c = bodyResultId certificateRequest)
      (certificate (databaseWithResult False)) = None"
  "bodyCertType certificateRequest = expectedCertType (kitType (sessionIn complete))"
  "findUnique (certificate (databaseWithResult False)) ''certificate-1'' = None"
  "homeId (sessionIn complete) = ''home-1''"
  "bodyResultId certificateRequest = ''result-1''"
  by (simp_all add: databaseWithResult_def certificateRequest_def storedResult_def
      sessionIn_def findUnique_def findUniqueWhere_def)

lemma newCertificate_example:
  "newCertificate zoneUTC None 1772107200000 ''certificate-1'' certificateRequest
      ''home-1'' (databaseWithResult False) = certificateFor ''result-1''"
  by (simp add: newCertificate_def certificateFor_def certificateRequest_def
      generate_empty generateVerificationUrl_def validUntil_examples Let_def)

lemma realEstateRequest_checks:
  "findUnique (result databaseShortTerm) (bodyResultId realEstateRequest)
      = Some (storedResult False)"
  "findUnique (testSession databaseShortTerm) (testSessionId (storedResult False))
      = Some ((sessionIn complete)\<lparr>kitType := real_estate_short\<rparr>)"
  "findUniqueWhere (\<lambda>c. resultId c = bodyResultId realEstateRequest)
      (certificate databaseShortTerm) = None"
  "bodyCertType realEstateRequest
      = expectedCertType (kitType ((sessionIn complete)\<lparr>kitType := real_estate_short\<rparr>))"
  "findUnique (certificate databaseShortTerm) ''certificate-1'' = None"
  "bodyCertType realEstateRequest = real_estate"
  "bodyValidFrom realEstateRequest = None"
  by (simp_all add: databaseShortTerm_def realEstateRequest_def storedResult_def
      sessionIn_def findUnique_def findUniqueWhere_def)

text \<open>
  A residential certificate issued in UTC on 26 February 2026 at 12:00 is valid until
  26 February 2028 at 12:00. A real-estate certificate issued in Toronto at the same
  instant (07:00 local time) is valid until 27 May 2026 at 07:00 local time, an hour less
  than 90 times 24 hours later.
\<close>

theorem createCertificate_valid_and_immutable_witness:
  "fst (createCertificate zoneUTC None 1772107200000 ''certificate-1'' certificateRequest
          (databaseWithResult False))
     = Inr (certificateFor ''result-1'')
   \<and> findUnique (certificate (snd (createCertificate zoneUTC None 1772107200000
        ''certificate-1'' certificateRequest (databaseWithResult False)))) ''certificate-1''
     = Some (certificateFor ''result-1'')
   \<and> findUnique (result (snd (createCertificate zoneUTC None 1772107200000 ''certificate-1''
        certificateRequest (databaseWithResult False)))) ''result-1''
     = Some (storedResult True)
   \<and> validUntil (certificateFor ''result-1'') = ValidDate 1835179200000
   \<and> certifiedResultsImmutable (databaseWithResult False)
   \<and> certifiedResultsImmutable (snd (createCertificate zoneUTC None 1772107200000
        ''certificate-1'' certificateRequest (databaseWithResult False)))
   \<and> map_option validUntil (findUnique (certificate (snd (createCertificate zoneToronto None
        1772107200000 ''certificate-1'' realEstateRequest databaseShortTerm)))
        ''certificate-1'')
     = Some (ValidDate 1779879600000)
   \<and> 1779879600000 = 1772107200000 + 90 * msPerDay - 3600000"
proof -
  have c: "newCertificate zoneUTC None 1772107200000 ''certificate-1'' certificateRequest
      (homeId (sessionIn complete)) (databaseWithResult False) = certificateFor ''result-1''"
    by (simp add: certificateRequest_checks(6) newCertificate_example)
  have run: "fst (createCertificate zoneUTC None 1772107200000 ''certificate-1''
      certificateRequest (databaseWithResult False)) = Inr (certificateFor ''result-1'')"
    using certificateRequest_checks(3)
    by (simp add: createCertificate_def certificateRequest_checks(1,2,4) Let_def c)
  have l: "(storedResult False)\<lparr>isImmutable := True\<rparr> = storedResult True"
    by (simp add: storedResult_def)
  have i: "certifiedResultsImmutable (databaseWithResult False)"
    by (simp add: certifiedResultsImmutable_def databaseWithResult_def)
  have v: "validUntil (certificateFor ''result-1'') = ValidDate 1835179200000"
    by (simp add: certificateFor_def)
  obtain cert where cert:
    "fst (createCertificate zoneUTC None 1772107200000 ''certificate-1'' certificateRequest
        (databaseWithResult False)) = Inr cert"
    "findUnique (certificate (snd (createCertificate zoneUTC None 1772107200000
        ''certificate-1'' certificateRequest (databaseWithResult False)))) ''certificate-1''
      = Some cert"
    "findUnique (result (snd (createCertificate zoneUTC None 1772107200000 ''certificate-1''
        certificateRequest (databaseWithResult False)))) (bodyResultId certificateRequest)
      = Some ((storedResult False)\<lparr>isImmutable := True\<rparr>)"
    "certifiedResultsImmutable (databaseWithResult False) \<longrightarrow>
       certifiedResultsImmutable (snd (createCertificate zoneUTC None 1772107200000
         ''certificate-1'' certificateRequest (databaseWithResult False)))"
    using createCertificate_valid_and_immutable [OF certificateRequest_checks(1,2,3,4,5),
        of zoneUTC None 1772107200000]
    by blast
  have a: "cert = certificateFor ''result-1''" using cert(1) run by simp
  obtain cert' where cert':
    "findUnique (certificate (snd (createCertificate zoneToronto None 1772107200000
        ''certificate-1'' realEstateRequest databaseShortTerm))) ''certificate-1''
      = Some cert'"
    "validFrom cert' = (case bodyValidFrom realEstateRequest of Some d \<Rightarrow> d
        | None \<Rightarrow> 1772107200000)"
    "bodyCertType realEstateRequest = real_estate \<longrightarrow>
       validUntil cert'
         = TimeClip (UTC zoneToronto (LocalTime zoneToronto (validFrom cert') + 90 * msPerDay))"
    using createCertificate_valid_and_immutable [OF realEstateRequest_checks(1,2,3,4,5),
        of zoneToronto None 1772107200000]
    by blast
  have "validFrom cert' = 1772107200000"
    using cert'(2) by (simp add: realEstateRequest_checks(7))
  then have "validUntil cert' = TimeClip (UTC zoneToronto 1779865200000)"
    using cert'(3)
    by (simp add: realEstateRequest_checks(6) LocalTime_def zoneToronto_def msPerDay_def)
  then have b: "validUntil cert' = ValidDate 1779879600000"
    by (simp add: UTC_def zoneToronto_def TimeClip_def)
  show ?thesis
    using run cert(2,3,4) l i v a cert'(1) b
    by (simp add: certificateRequest_checks(7) msPerDay_def)
qed

end
